theory Spec2Isabelle
  imports Complex_Main "HOL-Library.Multiset"
begin

section \<open>Python strings\<close>

text \<open>
  A Python \<open>str\<close> is modelled as a \<open>string\<close> whose characters are the code points
  U+0000 to U+00FF (Latin-1); code points above U+00FF are outside the model. The
  character classes below are Python's on that range.
\<close>

definition code_point :: "char \<Rightarrow> nat" where
  "code_point c = of_char c"

definition py_isdigit_char :: "char \<Rightarrow> bool" where
  \<comment> \<open>the characters on which \<open>str.isdigit\<close> holds: 0-9 and the superscripts U+00B2, U+00B3, U+00B9\<close>
  "py_isdigit_char c =
     (let n = code_point c in (48 \<le> n \<and> n \<le> 57) \<or> n = 178 \<or> n = 179 \<or> n = 185)"

definition py_isdigit :: "string \<Rightarrow> bool" where
  \<comment> \<open>\<open>str.isdigit()\<close>: at least one character, and every character is a digit\<close>
  "py_isdigit s = (s \<noteq> [] \<and> list_all py_isdigit_char s)"

definition upper_case_letters :: "char list" where
  "upper_case_letters = ''ABCDEFGHIJKLMNOPQRSTUVWXYZ'' @
     [CHR 0xC0, CHR 0xC1, CHR 0xC2, CHR 0xC3, CHR 0xC4, CHR 0xC5, CHR 0xC6, CHR 0xC7,
      CHR 0xC8, CHR 0xC9, CHR 0xCA, CHR 0xCB, CHR 0xCC, CHR 0xCD, CHR 0xCE, CHR 0xCF,
      CHR 0xD0, CHR 0xD1, CHR 0xD2, CHR 0xD3, CHR 0xD4, CHR 0xD5, CHR 0xD6,
      CHR 0xD8, CHR 0xD9, CHR 0xDA, CHR 0xDB, CHR 0xDC, CHR 0xDD, CHR 0xDE]"

definition lower_case_letters :: "char list" where
  "lower_case_letters = ''abcdefghijklmnopqrstuvwxyz'' @
     [CHR 0xE0, CHR 0xE1, CHR 0xE2, CHR 0xE3, CHR 0xE4, CHR 0xE5, CHR 0xE6, CHR 0xE7,
      CHR 0xE8, CHR 0xE9, CHR 0xEA, CHR 0xEB, CHR 0xEC, CHR 0xED, CHR 0xEE, CHR 0xEF,
      CHR 0xF0, CHR 0xF1, CHR 0xF2, CHR 0xF3, CHR 0xF4, CHR 0xF5, CHR 0xF6,
      CHR 0xF8, CHR 0xF9, CHR 0xFA, CHR 0xFB, CHR 0xFC, CHR 0xFD, CHR 0xFE]"

definition py_lower_char :: "char \<Rightarrow> char" where
  "py_lower_char c =
     (case map_of (zip upper_case_letters lower_case_letters) c of
        Some l \<Rightarrow> l
      | None \<Rightarrow> c)"

definition py_lower :: "string \<Rightarrow> string" where
  \<comment> \<open>\<open>str.lower()\<close>\<close>
  "py_lower s = map py_lower_char s"

definition py_isspace_char :: "char \<Rightarrow> bool" where
  \<comment> \<open>the characters that \<open>str.strip()\<close> removes\<close>
  "py_isspace_char c =
     (let n = code_point c in
        (9 \<le> n \<and> n \<le> 13) \<or> (28 \<le> n \<and> n \<le> 32) \<or> n = 133 \<or> n = 160)"

definition py_strip :: "string \<Rightarrow> string" where
  \<comment> \<open>\<open>str.strip()\<close>: whitespace removed at both ends\<close>
  "py_strip s = rev (dropWhile py_isspace_char (rev (dropWhile py_isspace_char s)))"

fun py_startswith :: "string \<Rightarrow> string \<Rightarrow> bool" where
  \<comment> \<open>\<open>s.startswith(p)\<close>, written \<open>py_startswith p s\<close>\<close>
  "py_startswith [] s = True"
| "py_startswith (p # ps) [] = False"
| "py_startswith (p # ps) (c # cs) = (p = c \<and> py_startswith ps cs)"

fun py_contains :: "string \<Rightarrow> string \<Rightarrow> bool" where
  \<comment> \<open>the substring test \<open>sub in s\<close>, written \<open>py_contains sub s\<close>\<close>
  "py_contains sub [] = (sub = [])"
| "py_contains sub (c # cs) = (py_startswith sub (c # cs) \<or> py_contains sub cs)"

section \<open>Regular expressions of the engine\<close>

definition re_digit :: "char \<Rightarrow> bool" where
  \<comment> \<open>\<open>\d\<close>: a decimal digit; below U+0100 these are 0-9\<close>
  "re_digit c = (let n = code_point c in 48 \<le> n \<and> n \<le> 57)"

fun re_repeat :: "(char \<Rightarrow> bool) \<Rightarrow> nat \<Rightarrow> string \<Rightarrow> string option" where
  \<comment> \<open>\<open>[class]{n}\<close>: consumes exactly n characters of the class and returns the rest of the
      input\<close>
  "re_repeat cls 0 s = Some s"
| "re_repeat cls (Suc n) [] = None"
| "re_repeat cls (Suc n) (c # cs) = (if cls c then re_repeat cls n cs else None)"

definition re_digits :: "nat \<Rightarrow> string \<Rightarrow> string option" where
  \<comment> \<open>\<open>\d{n}\<close>\<close>
  "re_digits n s = re_repeat re_digit n s"

definition re_literal :: "char \<Rightarrow> string \<Rightarrow> string option" where
  "re_literal l s = (case s of [] \<Rightarrow> None | c # cs \<Rightarrow> if c = l then Some cs else None)"

definition re_dollar :: "string \<Rightarrow> bool" where
  \<comment> \<open>\<open>$\<close> without MULTILINE: at the end of the string, or just before a newline that
      ends the string\<close>
  "re_dollar s = (s = [] \<or> s = [CHR 0x0A])"

definition re_match_date_pattern :: "string \<Rightarrow> bool" where
  \<comment> \<open>\<open>re.match(r'^\d{4}-\d{2}-\d{2}$', value)\<close> is not None\<close>
  "re_match_date_pattern v =
     (case re_digits 4 v of None \<Rightarrow> False | Some r1 \<Rightarrow>
      case re_literal (CHR ''-'') r1 of None \<Rightarrow> False | Some r2 \<Rightarrow>
      case re_digits 2 r2 of None \<Rightarrow> False | Some r3 \<Rightarrow>
      case re_literal (CHR ''-'') r3 of None \<Rightarrow> False | Some r4 \<Rightarrow>
      case re_digits 2 r4 of None \<Rightarrow> False | Some r5 \<Rightarrow> re_dollar r5)"

section \<open>Parameter type inference\<close>

definition infer_parameter_type :: "string list \<Rightarrow> string" where
  \<comment> \<open>\<open>_infer_parameter_type\<close>\<close>
  "infer_parameter_type accepted_values =
     (if accepted_values = [] then ''string''
      else if list_all py_isdigit accepted_values then ''integer''
      else if list_all (\<lambda>value. py_lower value \<in> set [''true'', ''false'']) accepted_values
        then ''boolean''
      else if list_all re_match_date_pattern accepted_values then ''date''
      else ''string'')"

section \<open>Values, responses and the network\<close>

text \<open>
  The Python values the engine handles are those of JSON: what \<open>response.json()\<close>
  returns, and the dictionaries the engine and the emitter build. A \<open>dict\<close> is an
  association list in insertion order, with distinct keys. A \<open>float\<close> is its real value
  (NaN and the infinities are outside the model).
\<close>

datatype json =
    JNull
  | JBool bool
  | JInt int
  | JFloat real
  | JString string
  | JArray "json list"
  | JObject "(string \<times> json) list"

record response =
  status_code :: int
  json_result :: "json option"   \<comment> \<open>the value of \<open>response.json()\<close>; \<open>None\<close> when it raises\<close>
  body_text :: string   \<comment> \<open>\<open>response.text\<close>\<close>

record request =
  http_method :: string
  url :: string
  params :: "(string \<times> string) list"

datatype outcome = Raises | Returns response

text \<open>
  The remote service is an oracle: the outcome of the \<open>n\<close>-th request the session
  issues, given that request. Every function that issues requests takes the number of
  requests issued so far and returns the number afterwards. \<open>time.sleep\<close> has no effect
  on the values computed and is left out.
\<close>

type_synonym network = "nat \<Rightarrow> request \<Rightarrow> outcome"

definition session_request ::
  "network \<Rightarrow> nat \<Rightarrow> string \<Rightarrow> string \<Rightarrow> (string \<times> string) list \<Rightarrow> outcome \<times> nat" where
  \<comment> \<open>\<open>self.session.request(method, url, params=params, timeout=self.timeout)\<close>\<close>
  "session_request net n m u ps =
     (net n \<lparr>http_method = m, url = u, params = ps\<rparr>, Suc n)"

definition session_get :: "network \<Rightarrow> nat \<Rightarrow> string \<Rightarrow> outcome \<times> nat" where
  \<comment> \<open>\<open>self.session.get(url, timeout=self.timeout)\<close>\<close>
  "session_get net n u = session_request net n ''GET'' u []"

text \<open>
  Library functions that are not modelled are parameters of the model: Python's \<open>repr\<close>
  of a value that is not a string, and \<open>re.findall(pattern, text, re.IGNORECASE)\<close>.
\<close>

record python_lib =
  py_repr :: "json \<Rightarrow> string"
  re_findall :: "string \<Rightarrow> string \<Rightarrow> string list"

definition py_str :: "python_lib \<Rightarrow> json \<Rightarrow> string" where
  \<comment> \<open>\<open>str(v)\<close>: a string is itself\<close>
  "py_str lib v = (case v of JString s \<Rightarrow> s | _ \<Rightarrow> py_repr lib v)"

definition safe_json :: "response \<Rightarrow> json" where
  \<comment> \<open>\<open>_safe_json\<close>: the parsed body, or the text of the body when parsing raises\<close>
  "safe_json r = (case json_result r of Some j \<Rightarrow> j | None \<Rightarrow> JString (body_text r))"

definition is_valid_endpoint :: "response \<Rightarrow> bool" where
  \<comment> \<open>\<open>_is_valid_endpoint\<close>\<close>
  "is_valid_endpoint r =
     (let status = status_code r in
      if status = 200 then True
      else status \<in> set [200, 201, 202, 204, 401, 403, 405, 422, 429])"

section \<open>The parameter profiler\<close>

record param_info =
  default_value :: string      \<comment> \<open>key \<open>default\<close>\<close>
  test_values :: "string list"
  error_value :: string

record validation_info =
  accepted_values :: "string list"
  rejected_values :: "string list"
  validation_patterns :: "string list"
  required :: bool
  inferred_type :: string      \<comment> \<open>key \<open>type\<close>\<close>

record parameter_info =
  pi_type :: string            \<comment> \<open>key \<open>type\<close>\<close>
  pi_required :: bool          \<comment> \<open>key \<open>required\<close>\<close>
  pi_default :: string         \<comment> \<open>key \<open>default\<close>\<close>
  pi_accepted :: bool          \<comment> \<open>key \<open>accepted\<close>\<close>

fun first_error_message :: "python_lib \<Rightarrow> (string \<times> json) list \<Rightarrow> string \<Rightarrow> string list \<Rightarrow> string option" where
  \<comment> \<open>the loop over \<open>error_fields\<close> of \<open>_extract_validation_error\<close>\<close>
  "first_error_message lib error_data param_name [] = None"
| "first_error_message lib error_data param_name (field # later_fields) =
     (case map_of error_data field of
        None \<Rightarrow> first_error_message lib error_data param_name later_fields
      | Some v \<Rightarrow>
          (let error_msg = py_str lib v in
           if py_contains (py_lower param_name) (py_lower error_msg) then Some error_msg
           else first_error_message lib error_data param_name later_fields))"

definition extract_validation_error :: "python_lib \<Rightarrow> response \<Rightarrow> string \<Rightarrow> string option" where
  \<comment> \<open>\<open>_extract_validation_error\<close>\<close>
  "extract_validation_error lib r param_name =
     (case safe_json r of
        JObject error_data \<Rightarrow>
          first_error_message lib error_data param_name
            [''error'', ''message'', ''detail'', ''description'']
      | _ \<Rightarrow> None)"

definition probe_value ::
  "network \<Rightarrow> string \<Rightarrow> string \<Rightarrow> string \<Rightarrow> string \<Rightarrow> validation_info \<times> nat
     \<Rightarrow> validation_info \<times> nat" where
  \<comment> \<open>one \<open>try\<close> block of the default value and of the test values: the request, then the
      bucket; a request that raises changes nothing\<close>
  "probe_value net u m param_name v st =
     (case st of (vi, n) \<Rightarrow>
      case session_request net n m u [(param_name, v)] of
        (Raises, n') \<Rightarrow> (vi, n')
      | (Returns r, n') \<Rightarrow>
          (if status_code r \<in> set [200, 401, 403]
             then (vi\<lparr>accepted_values := accepted_values vi @ [v]\<rparr>, n')
           else if status_code r = 400
             then (vi\<lparr>rejected_values := rejected_values vi @ [v]\<rparr>, n')
           else (vi, n')))"

fun probe_test_values ::
  "network \<Rightarrow> string \<Rightarrow> string \<Rightarrow> string \<Rightarrow> string list \<Rightarrow> validation_info \<times> nat
     \<Rightarrow> validation_info \<times> nat" where
  \<comment> \<open>\<open>for test_value in param_info['test_values']\<close>\<close>
  "probe_test_values net u m param_name [] st = st"
| "probe_test_values net u m param_name (test_value # rest) st =
     probe_test_values net u m param_name rest (probe_value net u m param_name test_value st)"

definition probe_error_value ::
  "python_lib \<Rightarrow> network \<Rightarrow> string \<Rightarrow> string \<Rightarrow> string \<Rightarrow> string \<Rightarrow> validation_info \<times> nat
     \<Rightarrow> validation_info \<times> nat" where
  \<comment> \<open>the \<open>try\<close> block of the error value: only a 400 is recorded\<close>
  "probe_error_value lib net u m param_name v st =
     (case st of (vi, n) \<Rightarrow>
      case session_request net n m u [(param_name, v)] of
        (Raises, n') \<Rightarrow> (vi, n')
      | (Returns r, n') \<Rightarrow>
          (if status_code r = 400 then
             (let vi1 = vi\<lparr>rejected_values := rejected_values vi @ [v]\<rparr> in
              case extract_validation_error lib r param_name of
                Some error_info \<Rightarrow>
                  (if error_info \<noteq> []
                     then (vi1\<lparr>validation_patterns := validation_patterns vi1 @ [error_info]\<rparr>, n')
                   else (vi1, n'))
              | None \<Rightarrow> (vi1, n'))
           else (vi, n')))"

definition determine_required :: "validation_info \<Rightarrow> validation_info" where
  \<comment> \<open>"Determine if parameter is required"\<close>
  "determine_required vi =
     (if accepted_values vi \<noteq> [] \<and> \<not> rejected_values vi \<noteq> [] then vi\<lparr>required := False\<rparr>
      else if rejected_values vi \<noteq> [] \<and> \<not> accepted_values vi \<noteq> [] then vi\<lparr>required := True\<rparr>
      else vi)"

definition initial_validation_info :: validation_info where
  "initial_validation_info =
     \<lparr>accepted_values = [], rejected_values = [], validation_patterns = [],
      required = False, inferred_type = ''string''\<rparr>"

definition analyze_parameter_comprehensive ::
  "python_lib \<Rightarrow> network \<Rightarrow> nat \<Rightarrow> string \<Rightarrow> string \<Rightarrow> string \<Rightarrow> param_info
     \<Rightarrow> (parameter_info \<times> validation_info) \<times> nat" where
  \<comment> \<open>\<open>_analyze_parameter_comprehensive\<close>; the result is the pair of the entries
      \<open>parameter_info\<close> and \<open>validation_info\<close> of the dictionary returned\<close>
  "analyze_parameter_comprehensive lib net n u m param_name pinfo =
     (let st1 = probe_value net u m param_name (default_value pinfo) (initial_validation_info, n);
          st2 = probe_test_values net u m param_name (test_values pinfo) st1;
          st3 = probe_error_value lib net u m param_name (error_value pinfo) st2;
          vi4 = determine_required (fst st3);
          vi5 = vi4\<lparr>inferred_type := infer_parameter_type (accepted_values vi4)\<rparr>
      in ((\<lparr>pi_type = inferred_type vi5,
            pi_required = required vi5,
            pi_default = default_value pinfo,
            pi_accepted = (length (accepted_values vi5) > 0)\<rparr>,
           vi5),
          snd st3))"

section \<open>Describing a run of the profiler\<close>

text \<open>
  The requests a parameter sweep issues and the outcomes it receives, in order: the
  \<open>k\<close>-th probe of a sweep that starts after \<open>n\<close> requests is request number
  \<open>n + k\<close>. \<open>bucketed P vs outs\<close> are the probed values whose outcome satisfies
  \<open>P\<close>, in probe order.
\<close>

definition probe_request :: "string \<Rightarrow> string \<Rightarrow> string \<Rightarrow> string \<Rightarrow> request" where
  "probe_request u m param_name v = \<lparr>http_method = m, url = u, params = [(param_name, v)]\<rparr>"

fun probe_outcomes :: "network \<Rightarrow> nat \<Rightarrow> string \<Rightarrow> string \<Rightarrow> string \<Rightarrow> string list \<Rightarrow> outcome list" where
  "probe_outcomes net n u m param_name [] = []"
| "probe_outcomes net n u m param_name (v # vs) =
     net n (probe_request u m param_name v) # probe_outcomes net (Suc n) u m param_name vs"

definition status_accepts :: "outcome \<Rightarrow> bool" where
  "status_accepts out = (case out of Raises \<Rightarrow> False
      | Returns r \<Rightarrow> status_code r = 200 \<or> status_code r = 401 \<or> status_code r = 403)"

definition status_rejects :: "outcome \<Rightarrow> bool" where
  "status_rejects out = (case out of Raises \<Rightarrow> False | Returns r \<Rightarrow> status_code r = 400)"

definition bucketed :: "(outcome \<Rightarrow> bool) \<Rightarrow> string list \<Rightarrow> outcome list \<Rightarrow> string list" where
  "bucketed P vs outs = map fst (filter (\<lambda>p. P (snd p)) (zip vs outs))"

section \<open>The type inference table in the words of the specification\<close>




section \<open>CRUD classification\<close>

fun py_split_slash :: "string \<Rightarrow> string list" where
  \<comment> \<open>\<open>s.split('/')\<close>\<close>
  "py_split_slash [] = [[]]"
| "py_split_slash (c # cs) =
     (if c = CHR ''/'' then [] # py_split_slash cs
      else (case py_split_slash cs of
              [] \<Rightarrow> [[c]]
            | seg # segs \<Rightarrow> (c # seg) # segs))"

definition re_segment :: "string \<Rightarrow> string \<times> string" where
  \<comment> \<open>\<open>[^/]+\<close>, greedy: the longest run of characters other than \<open>/\<close>, and the rest\<close>
  "re_segment s = (takeWhile (\<lambda>c. c \<noteq> CHR ''/'') s, dropWhile (\<lambda>c. c \<noteq> CHR ''/'') s)"

definition resource_match_at :: "string \<Rightarrow> (string \<times> string option) option" where
  \<comment> \<open>A match of \<open>/([^/]+)(?:/([^/]+))?$\<close> that starts at the first character, as its
      groups 1 and 2. The greedy runs are the only candidates: a shorter run is followed by
      a character of the run, or by \<open>/\<close>, where neither the optional group nor \<open>$\<close>
      matches; and a newline before the end belongs to the run, so that \<open>$\<close> matches at
      the end of the string only.\<close>
  "resource_match_at s =
     (case s of
        [] \<Rightarrow> None
      | c # cs \<Rightarrow>
          if c \<noteq> CHR ''/'' then None
          else (case re_segment cs of (g1, rest) \<Rightarrow>
            if g1 = [] then None
            else (case rest of
                    [] \<Rightarrow> Some (g1, None)
                  | slash # after \<Rightarrow>
                      (case re_segment after of (g2, rest2) \<Rightarrow>
                         if g2 \<noteq> [] \<and> rest2 = [] then Some (g1, Some g2) else None))))"

fun resource_search :: "string \<Rightarrow> (string \<times> string option) option" where
  \<comment> \<open>\<open>re.search(r'/([^/]+)(?:/([^/]+))?$', endpoint)\<close>: the match at the leftmost position
      that has one\<close>
  "resource_search [] = None"
| "resource_search (c # cs) =
     (case resource_match_at (c # cs) of
        Some groups \<Rightarrow> Some groups
      | None \<Rightarrow> resource_search cs)"

record crud_ops =
  create :: bool
  read :: bool
  update :: bool
  delete :: bool

definition identify_crud_operations :: "string \<Rightarrow> crud_ops" where
  \<comment> \<open>\<open>_identify_crud_operations\<close>\<close>
  "identify_crud_operations endpoint =
     (let endpoint_lower = py_lower endpoint in
      case resource_search endpoint of
        None \<Rightarrow> \<lparr>create = False, read = False, update = False, delete = False\<rparr>
      | Some (resource, group2) \<Rightarrow>
          (let has_id = (group2 \<noteq> None) in
           if py_contains ''auth'' endpoint_lower \<or> py_contains ''login'' endpoint_lower
             then \<lparr>create = True, read = False, update = False, delete = False\<rparr>
           else if py_contains ''search'' endpoint_lower \<or> py_contains ''find'' endpoint_lower
             then \<lparr>create = False, read = True, update = False, delete = False\<rparr>
           else \<lparr>create = \<not> has_id, read = True, update = has_id, delete = has_id\<rparr>))"

definition ends_with_segment :: "string \<Rightarrow> bool" where
  \<comment> \<open>the path has a \<open>/\<close> and does not end with one\<close>
  "ends_with_segment endpoint =
     (let segs = py_split_slash endpoint in 2 \<le> length segs \<and> last segs \<noteq> [])"

definition ends_with_two_segments :: "string \<Rightarrow> bool" where
  \<comment> \<open>the path ends with \<open>/a/b\<close>, where \<open>a\<close> and \<open>b\<close> are not empty and have no \<open>/\<close>\<close>
  "ends_with_two_segments endpoint =
     (let segs = py_split_slash endpoint in
      3 \<le> length segs \<and> last segs \<noteq> [] \<and> last (butlast segs) \<noteq> [])"

fun groups_of_segments :: "string list \<Rightarrow> (string \<times> string option) option" where
  \<comment> \<open>the groups of the match, read off the segments of the path: the last two segments
      when both are not empty and a \<open>/\<close> precedes them, else the last segment when it is not
      empty and a \<open>/\<close> precedes it\<close>
  "groups_of_segments [s0, a, b] =
     (if a \<noteq> [] \<and> b \<noteq> [] then Some (a, Some b)
      else if b \<noteq> [] then Some (b, None) else None)"
| "groups_of_segments [s0, b] = (if b \<noteq> [] then Some (b, None) else None)"
| "groups_of_segments (s0 # a # b # c # segs) = groups_of_segments (a # b # c # segs)"
| "groups_of_segments segs = None"

section \<open>Python values\<close>

datatype py_error = AttributeError | TypeError

definition py_truthy :: "json \<Rightarrow> bool" where
  \<comment> \<open>the truth value of a Python value: \<open>None\<close>, \<open>False\<close>, zero and the empty string, list
      and dict are false\<close>
  "py_truthy v =
     (case v of
        JNull \<Rightarrow> False
      | JBool b \<Rightarrow> b
      | JInt i \<Rightarrow> i \<noteq> 0
      | JFloat x \<Rightarrow> x \<noteq> 0
      | JString s \<Rightarrow> s \<noteq> []
      | JArray xs \<Rightarrow> xs \<noteq> []
      | JObject d \<Rightarrow> d \<noteq> [])"

definition py_type_name :: "json \<Rightarrow> string" where
  \<comment> \<open>\<open>type(v).__name__\<close>\<close>
  "py_type_name v =
     (case v of
        JNull \<Rightarrow> ''NoneType''
      | JBool b \<Rightarrow> ''bool''
      | JInt i \<Rightarrow> ''int''
      | JFloat x \<Rightarrow> ''float''
      | JString s \<Rightarrow> ''str''
      | JArray xs \<Rightarrow> ''list''
      | JObject d \<Rightarrow> ''dict'')"

definition dict_get :: "(string \<times> json) list \<Rightarrow> string \<Rightarrow> json \<Rightarrow> json" where
  \<comment> \<open>\<open>d.get(key, default)\<close> on a dict\<close>
  "dict_get d k dflt = (case map_of d k of Some v \<Rightarrow> v | None \<Rightarrow> dflt)"

section \<open>Response schema inference\<close>

definition re_hex :: "char \<Rightarrow> bool" where
  \<comment> \<open>\<open>[a-f0-9]\<close>\<close>
  "re_hex c = (let n = code_point c in (97 \<le> n \<and> n \<le> 102) \<or> (48 \<le> n \<and> n \<le> 57))"

definition re_match_date_prefix :: "string \<Rightarrow> bool" where
  \<comment> \<open>\<open>re.match(r'^\d{4}-\d{2}-\d{2}', value)\<close> is not None\<close>
  "re_match_date_prefix v =
     (case re_digits 4 v of None \<Rightarrow> False | Some r1 \<Rightarrow>
      (case re_literal (CHR ''-'') r1 of None \<Rightarrow> False | Some r2 \<Rightarrow>
      (case re_digits 2 r2 of None \<Rightarrow> False | Some r3 \<Rightarrow>
      (case re_literal (CHR ''-'') r3 of None \<Rightarrow> False | Some r4 \<Rightarrow>
      (case re_digits 2 r4 of None \<Rightarrow> False | Some r5 \<Rightarrow> True)))))"

definition re_match_uuid :: "string \<Rightarrow> bool" where
  \<comment> \<open>\<open>re.match(r'^[a-f0-9]{8}-[a-f0-9]{4}-[a-f0-9]{4}-[a-f0-9]{4}-[a-f0-9]{12}$', value)\<close>
      is not None\<close>
  "re_match_uuid v =
     (case re_repeat re_hex 8 v of None \<Rightarrow> False | Some r1 \<Rightarrow>
      (case re_literal (CHR ''-'') r1 of None \<Rightarrow> False | Some r2 \<Rightarrow>
      (case re_repeat re_hex 4 r2 of None \<Rightarrow> False | Some r3 \<Rightarrow>
      (case re_literal (CHR ''-'') r3 of None \<Rightarrow> False | Some r4 \<Rightarrow>
      (case re_repeat re_hex 4 r4 of None \<Rightarrow> False | Some r5 \<Rightarrow>
      (case re_literal (CHR ''-'') r5 of None \<Rightarrow> False | Some r6 \<Rightarrow>
      (case re_repeat re_hex 4 r6 of None \<Rightarrow> False | Some r7 \<Rightarrow>
      (case re_literal (CHR ''-'') r7 of None \<Rightarrow> False | Some r8 \<Rightarrow>
      (case re_repeat re_hex 12 r8 of None \<Rightarrow> False | Some r9 \<Rightarrow> re_dollar r9)))))))))"

definition infer_type_comprehensive :: "json \<Rightarrow> string" where
  \<comment> \<open>\<open>_infer_type_comprehensive\<close>\<close>
  "infer_type_comprehensive v =
     (case v of
        JBool b \<Rightarrow> ''boolean''
      | JInt i \<Rightarrow> ''integer''
      | JFloat x \<Rightarrow> ''number''
      | JString s \<Rightarrow>
          (if re_match_date_prefix s then ''date''
           else if re_match_uuid s then ''uuid''
           else if CHR ''@'' \<in> set s \<and> CHR ''.'' \<in> set s then ''email''
           else if py_startswith ''http'' s then ''url''
           else ''string'')
      | JArray xs \<Rightarrow> ''array''
      | JObject d \<Rightarrow> ''object''
      | JNull \<Rightarrow> ''string'')"

definition infer_object_schema_comprehensive :: "json \<Rightarrow> py_error + json" where
  \<comment> \<open>\<open>_infer_object_schema_comprehensive\<close>; \<open>obj.items()\<close> raises on a value that is not a
      dict\<close>
  "infer_object_schema_comprehensive obj =
     (case obj of
        JObject d \<Rightarrow>
          Inr (JObject
            [(''type'', JString ''object''),
             (''properties'',
                JObject (map (\<lambda>(key, v).
                   (key, JObject [(''type'', JString (infer_type_comprehensive v)), (''example'', v)])) d)),
             (''required'', JArray []),
             (''example'', obj)])
      | _ \<Rightarrow> Inl AttributeError)"

definition analyze_response_schema_comprehensive :: "response \<Rightarrow> json" where
  \<comment> \<open>\<open>_analyze_response_schema_comprehensive\<close>; the \<open>except\<close> clause turns every exception
      into \<open>{'type': 'unknown'}\<close>\<close>
  "analyze_response_schema_comprehensive r =
     (let data = safe_json r;
          attempt =
            (case data of
               JObject d \<Rightarrow> infer_object_schema_comprehensive data
             | JArray (first # others) \<Rightarrow>
                 (case infer_object_schema_comprehensive first of
                    Inl e \<Rightarrow> Inl e
                  | Inr items \<Rightarrow>
                      Inr (JObject [(''type'', JString ''array''), (''items'', items),
                                    (''count'', JInt (int (length (first # others))))]))
             | _ \<Rightarrow> Inr (JObject [(''type'', JString (py_type_name data))]))
      in case attempt of
           Inr schema \<Rightarrow> schema
         | Inl e \<Rightarrow> JObject [(''type'', JString ''unknown'')])"

section \<open>The emitter: response schemas\<close>

definition type_mapping_get :: "string \<Rightarrow> string" where
  \<comment> \<open>\<open>type_mapping.get(param_type, 'string')\<close> for a string\<close>
  "type_mapping_get param_type =
     (case map_of
        [(''string'', ''string''), (''integer'', ''integer''), (''number'', ''number''),
         (''boolean'', ''boolean''), (''date'', ''string''), (''email'', ''string''),
         (''url'', ''string''), (''uuid'', ''string'')] param_type of
        Some t \<Rightarrow> t
      | None \<Rightarrow> ''string'')"

definition convert_parameter_type :: "json \<Rightarrow> py_error + string" where
  \<comment> \<open>\<open>_convert_parameter_type\<close> on any value: a list or a dict is not hashable and raises,
      and a value that is not a string is not a key of the mapping\<close>
  "convert_parameter_type param_type =
     (case param_type of
        JString s \<Rightarrow> Inr (type_mapping_get s)
      | JArray xs \<Rightarrow> Inl TypeError
      | JObject d \<Rightarrow> Inl TypeError
      | _ \<Rightarrow> Inr ''string'')"

definition convert_property :: "string \<Rightarrow> json \<Rightarrow> py_error + json" where
  \<comment> \<open>one round of the loop over \<open>properties\<close> in \<open>_create_response_schema\<close>\<close>
  "convert_property prop_name prop_info =
     (case prop_info of
        JObject d \<Rightarrow>
          (case convert_parameter_type (dict_get d ''type'' (JString ''string'')) of
             Inl e \<Rightarrow> Inl e
           | Inr t \<Rightarrow>
               (let entry = [(''type'', JString t), (''description'', JString (prop_name @ '' field''))]
                in if map_of d ''type'' = Some (JString ''date'')
                     then Inr (JObject (entry @ [(''format'', JString ''date'')]))
                   else if map_of d ''type'' = Some (JString ''email'')
                     then Inr (JObject (entry @ [(''format'', JString ''email'')]))
                   else if map_of d ''type'' = Some (JString ''url'')
                     then Inr (JObject (entry @ [(''format'', JString ''uri'')]))
                   else Inr (JObject entry)))
      | _ \<Rightarrow> Inl AttributeError)"

fun convert_properties :: "(string \<times> json) list \<Rightarrow> py_error + (string \<times> json) list" where
  \<comment> \<open>the loop over \<open>properties\<close>: the first exception ends it\<close>
  "convert_properties [] = Inr []"
| "convert_properties ((prop_name, prop_info) # rest) =
     (case convert_property prop_name prop_info of
        Inl e \<Rightarrow> Inl e
      | Inr p \<Rightarrow>
          (case convert_properties rest of
             Inl e \<Rightarrow> Inl e
           | Inr ps \<Rightarrow> Inr ((prop_name, p) # ps)))"

definition default_object_schema :: json where
  "default_object_schema = JObject [(''type'', JString ''object''), (''properties'', JObject [])]"

function create_response_schema :: "json \<Rightarrow> py_error + json" where
  \<comment> \<open>\<open>_create_response_schema\<close>; \<open>.get\<close> and \<open>.items()\<close> raise on a value that is not a dict\<close>
  "create_response_schema response_schema =
     (if \<not> py_truthy response_schema then Inr default_object_schema
      else (case response_schema of
        JObject d \<Rightarrow>
          (if map_of d ''type'' = Some (JString ''array'') then
             (case (case map_of d ''items'' of
                      None \<Rightarrow> create_response_schema (JObject [])
                    | Some items \<Rightarrow> create_response_schema items) of
                Inl e \<Rightarrow> Inl e
              | Inr items_schema \<Rightarrow>
                  Inr (JObject [(''type'', JString ''array''), (''items'', items_schema)]))
           else if map_of d ''type'' = Some (JString ''object'') then
             (case dict_get d ''properties'' (JObject []) of
                JObject props \<Rightarrow>
                  (case convert_properties props of
                     Inl e \<Rightarrow> Inl e
                   | Inr properties \<Rightarrow>
                       Inr (JObject [(''type'', JString ''object''), (''properties'', JObject properties)]))
              | _ \<Rightarrow> Inl AttributeError)
           else Inr default_object_schema)
      | _ \<Rightarrow> Inl AttributeError))"
  by pat_completeness auto
termination
proof (relation "measure size")
  show "wf (measure size)" by simp
next
  fix response_schema :: json and d
  assume "\<not> \<not> py_truthy response_schema" "response_schema = JObject d"
  then have "d \<noteq> []" by (simp add: py_truthy_def)
  then show "(JObject [], response_schema) \<in> measure size"
    using \<open>response_schema = JObject d\<close> by (cases d) simp_all
next
  fix response_schema :: json and d items
  assume rs: "response_schema = JObject d" and items: "map_of d ''items'' = Some items"
  from items have "size items < size (JObject d)"
    by (induction d) (auto split: if_splits)
  with rs show "(items, response_schema) \<in> measure size"
    by simp
qed

declare create_response_schema.simps [simp del]

definition convertible_property :: "json \<Rightarrow> bool" where
  \<comment> \<open>a property that the loop over \<open>properties\<close> converts: a mapping whose \<open>type\<close>, when
      present, is neither a list nor a mapping\<close>
  "convertible_property prop_info =
     (case prop_info of
        JObject d \<Rightarrow>
          (case map_of d ''type'' of
             Some (JArray xs) \<Rightarrow> False
           | Some (JObject t) \<Rightarrow> False
           | _ \<Rightarrow> True)
      | _ \<Rightarrow> False)"

function convertible :: "json \<Rightarrow> bool" where
  \<comment> \<open>the inputs on which \<open>_create_response_schema\<close> returns: a false value; a mapping
      tagged \<open>array\<close> whose items are absent or convertible; a mapping tagged \<open>object\<close>
      whose \<open>properties\<close> are absent or a mapping of convertible properties; a mapping with
      any other tag or none\<close>
  "convertible response_schema =
     (if \<not> py_truthy response_schema then True
      else (case response_schema of
        JObject d \<Rightarrow>
          (if map_of d ''type'' = Some (JString ''array'') then
             (case map_of d ''items'' of
                None \<Rightarrow> True
              | Some items \<Rightarrow> convertible items)
           else if map_of d ''type'' = Some (JString ''object'') then
             (case map_of d ''properties'' of
                None \<Rightarrow> True
              | Some (JObject props) \<Rightarrow> list_all (\<lambda>(prop_name, prop_info). convertible_property prop_info) props
              | Some other \<Rightarrow> False)
           else True)
      | _ \<Rightarrow> False))"
  by pat_completeness auto
termination
proof (relation "measure size")
  show "wf (measure size)" by simp
next
  fix response_schema :: json and d items
  assume rs: "response_schema = JObject d" and items: "map_of d ''items'' = Some items"
  from items have "size items < size (JObject d)"
    by (induction d) (auto split: if_splits)
  with rs show "(items, response_schema) \<in> measure size"
    by simp
qed

declare convertible.simps [simp del]

definition shallow_object_schema :: "(string \<times> json) list \<Rightarrow> json" where
  \<comment> \<open>the schema inferred for a JSON object: every field is tagged with the kind of its
      value and keeps the value as example; nothing below the field is inferred\<close>
  "shallow_object_schema d =
     JObject
       [(''type'', JString ''object''),
        (''properties'',
           JObject (map (\<lambda>(key, v).
              (key, JObject [(''type'', JString (infer_type_comprehensive v)), (''example'', v)])) d)),
        (''required'', JArray []),
        (''example'', JObject d)]"

definition schema_type :: "json \<Rightarrow> json option" where
  \<comment> \<open>the entry \<open>type\<close> of a schema\<close>
  "schema_type schema = (case schema of JObject d \<Rightarrow> map_of d ''type'' | _ \<Rightarrow> None)"

section \<open>The generator and endpoint discovery\<close>

record generator =
  base_url :: string
  custom_endpoints :: "string list option"     \<comment> \<open>\<open>None\<close> when no list was given\<close>
  endpoint_patterns :: "string list"
  parameter_variations :: "(string \<times> param_info) list"

definition universal_endpoint_patterns :: "string list" where
  \<comment> \<open>the catalog assigned to \<open>self.endpoint_patterns\<close>\<close>
  "universal_endpoint_patterns =
     [
      ''/users'', ''/posts'', ''/products'', ''/orders'', ''/items'', ''/customers'',
      ''/employees'', ''/articles'', ''/comments'', ''/reviews'', ''/ratings'', ''/categories'',
      ''/tags'', ''/files'', ''/images'', ''/documents'', ''/projects'', ''/tasks'',
      ''/events'', ''/schedules'', ''/bookings'', ''/payments'', ''/invoices'', ''/transactions'',
      ''/accounts'', ''/profiles'', ''/api/users'', ''/api/v1/users'', ''/api/v2/users'', ''/v1/users'',
      ''/v2/users'', ''/api/posts'', ''/api/v1/posts'', ''/api/v2/posts'', ''/v1/posts'', ''/api/products'',
      ''/api/v1/products'', ''/api/v2/products'', ''/data/users'', ''/data/posts'', ''/resources/users'', ''/resources/posts'',
      ''/services/users'', ''/services/posts'', ''/entities/users'', ''/entities/posts'', ''/entities'', ''/objects'',
      ''/records'', ''/items'', ''/data'', ''/resources'', ''/auth'', ''/login'',
      ''/logout'', ''/register'', ''/signup'', ''/signin'', ''/password'', ''/reset'',
      ''/verify'', ''/confirm'', ''/activate'', ''/files'', ''/uploads'', ''/downloads'',
      ''/media'', ''/images'', ''/videos'', ''/documents'', ''/attachments'', ''/assets'',
      ''/static'', ''/search'', ''/find'', ''/query'', ''/discover'', ''/explore'',
      ''/browse'', ''/analytics'', ''/metrics'', ''/stats'', ''/reports'', ''/dashboard'',
      ''/insights'', ''/data'', ''/statistics'']"

definition py_rstrip_slash :: "string \<Rightarrow> string" where
  \<comment> \<open>\<open>s.rstrip('/')\<close>\<close>
  "py_rstrip_slash s = rev (dropWhile (\<lambda>c. c = CHR ''/'') (rev s))"

definition new_generator :: "string \<Rightarrow> string list option \<Rightarrow> generator" where
  \<comment> \<open>\<open>__init__\<close>; every entry of \<open>self.parameter_variations\<close> is commented out in the
      source, so the catalog of parameters is empty\<close>
  "new_generator url0 custom =
     \<lparr>base_url = py_rstrip_slash url0,
      custom_endpoints = custom,
      endpoint_patterns = universal_endpoint_patterns,
      parameter_variations = []\<rparr>"

fun probe_custom_endpoints ::
  "generator \<Rightarrow> network \<Rightarrow> string list \<Rightarrow> string list \<times> nat \<Rightarrow> string list \<times> nat" where
  \<comment> \<open>\<open>for endpoint in self.custom_endpoints\<close>: normalise, probe, append when valid; an
      exception skips the endpoint\<close>
  "probe_custom_endpoints gen net [] st = st"
| "probe_custom_endpoints gen net (endpoint # rest) (discovered_endpoints, n) =
     (let stripped = py_strip endpoint;
          normalized = (if \<not> py_startswith ''/'' stripped then ''/'' @ stripped else stripped)
      in case session_get net n (base_url gen @ normalized) of
           (Raises, n') \<Rightarrow> probe_custom_endpoints gen net rest (discovered_endpoints, n')
         | (Returns r, n') \<Rightarrow>
             probe_custom_endpoints gen net rest
               (if is_valid_endpoint r then discovered_endpoints @ [normalized]
                else discovered_endpoints, n'))"

fun probe_patterns ::
  "generator \<Rightarrow> network \<Rightarrow> string list \<Rightarrow> string list \<times> nat \<Rightarrow> string list \<times> nat" where
  \<comment> \<open>\<open>for pattern in self.endpoint_patterns\<close>\<close>
  "probe_patterns gen net [] st = st"
| "probe_patterns gen net (pattern # rest) (discovered_endpoints, n) =
     (case session_get net n (base_url gen @ pattern) of
        (Raises, n') \<Rightarrow> probe_patterns gen net rest (discovered_endpoints, n')
      | (Returns r, n') \<Rightarrow>
          probe_patterns gen net rest
            (if is_valid_endpoint r then discovered_endpoints @ [pattern]
             else discovered_endpoints, n'))"

definition parse_openapi_spec :: "json \<Rightarrow> py_error + string list" where
  \<comment> \<open>\<open>_parse_openapi_spec\<close>. \<open>'paths' in spec\<close> is a key test on a dict, an element test on
      a list and a substring test on a string, and raises on the other values;
      \<open>spec['paths']\<close> raises on a list or a string, and \<open>.items()\<close> on a value that is not
      a dict.\<close>
  "parse_openapi_spec spec =
     (case spec of
        JObject d \<Rightarrow>
          (case map_of d ''paths'' of
             None \<Rightarrow> Inr []
           | Some (JObject paths) \<Rightarrow> Inr (filter (py_startswith ''/'') (map fst paths))
           | Some other \<Rightarrow> Inl AttributeError)
      | JArray xs \<Rightarrow> (if JString ''paths'' \<in> set xs then Inl TypeError else Inr [])
      | JString s \<Rightarrow> (if py_contains ''paths'' s then Inl TypeError else Inr [])
      | _ \<Rightarrow> Inl TypeError)"

fun try_openapi_urls :: "generator \<Rightarrow> network \<Rightarrow> string list \<Rightarrow> nat \<Rightarrow> string list \<times> nat" where
  \<comment> \<open>\<open>for openapi_path in openapi_urls\<close>: the first 200 response that parses as JSON and as
      a specification ends the loop; every exception moves on to the next URL\<close>
  "try_openapi_urls gen net [] n = ([], n)"
| "try_openapi_urls gen net (openapi_path # rest) n =
     (case session_get net n (base_url gen @ openapi_path) of
        (Raises, n') \<Rightarrow> try_openapi_urls gen net rest n'
      | (Returns r, n') \<Rightarrow>
          (if status_code r = 200 then
             (case json_result r of
                None \<Rightarrow> try_openapi_urls gen net rest n'
              | Some spec \<Rightarrow>
                  (case parse_openapi_spec spec of
                     Inl e \<Rightarrow> try_openapi_urls gen net rest n'
                   | Inr endpoints \<Rightarrow> (endpoints, n')))
           else try_openapi_urls gen net rest n'))"

definition discover_with_openapi :: "generator \<Rightarrow> network \<Rightarrow> nat \<Rightarrow> string list \<times> nat" where
  \<comment> \<open>\<open>_discover_with_openapi\<close>\<close>
  "discover_with_openapi gen net n =
     try_openapi_urls gen net
       [''/openapi.json'', ''/swagger.json'', ''/api-docs'',
        ''/swagger/v1/swagger.json'', ''/v1/swagger.json'',
        ''/api-docs/v2/swagger.json'', ''/api/v1/swagger.json'',
        ''/docs/swagger.json'', ''/api/docs/swagger.json''] n"

definition quotes :: string where
  \<comment> \<open>the three characters \<open>"\'\<close> of the character classes below\<close>
  "quotes = [CHR 0x22, CHR 0x5C, CHR 0x27]"

definition backslash :: string where
  "backslash = [CHR 0x5C]"

definition html_endpoint_patterns :: "string list" where
  \<comment> \<open>the list \<open>patterns\<close> of \<open>_extract_endpoints_from_html\<close>\<close>
  "html_endpoint_patterns =
     [''['' @ quotes @ ''](/api/[^'' @ quotes @ '']+)['' @ quotes @ '']'',
      ''['' @ quotes @ ''](/v'' @ backslash @ ''d+/[^'' @ quotes @ '']+)['' @ quotes @ '']'',
      ''['' @ quotes @ ''](/[a-z]+/[^'' @ quotes @ '']+)['' @ quotes @ '']'',
      ''GET'' @ backslash @ ''s+([^'' @ backslash @ ''s]+)'',
      ''POST'' @ backslash @ ''s+([^'' @ backslash @ ''s]+)'',
      ''PUT'' @ backslash @ ''s+([^'' @ backslash @ ''s]+)'',
      ''DELETE'' @ backslash @ ''s+([^'' @ backslash @ ''s]+)'']"

definition extract_endpoints_from_html :: "python_lib \<Rightarrow> string \<Rightarrow> string list" where
  \<comment> \<open>\<open>_extract_endpoints_from_html\<close>; every pattern has one group, so that \<open>re.findall\<close>
      returns strings. \<open>list(set(...))\<close> is modelled by \<open>remdups\<close>: Python leaves the order
      of the result open.\<close>
  "extract_endpoints_from_html lib html_content =
     remdups (concat (map (\<lambda>pattern. re_findall lib pattern html_content) html_endpoint_patterns))"

fun scan_doc_urls ::
  "python_lib \<Rightarrow> generator \<Rightarrow> network \<Rightarrow> string list \<Rightarrow> string list \<times> nat \<Rightarrow> string list \<times> nat" where
  \<comment> \<open>\<open>for doc_url in doc_urls\<close>\<close>
  "scan_doc_urls lib gen net [] st = st"
| "scan_doc_urls lib gen net (doc_url # rest) (discovered, n) =
     (case session_get net n (base_url gen @ doc_url) of
        (Raises, n') \<Rightarrow> scan_doc_urls lib gen net rest (discovered, n')
      | (Returns r, n') \<Rightarrow>
          (if status_code r = 200 then
             (let endpoints = extract_endpoints_from_html lib (body_text r)
              in scan_doc_urls lib gen net rest
                   (if endpoints \<noteq> [] then discovered @ endpoints else discovered, n'))
           else scan_doc_urls lib gen net rest (discovered, n')))"

definition discover_from_documentation ::
  "python_lib \<Rightarrow> generator \<Rightarrow> network \<Rightarrow> nat \<Rightarrow> string list \<times> nat" where
  \<comment> \<open>\<open>_discover_from_documentation\<close>\<close>
  "discover_from_documentation lib gen net n =
     scan_doc_urls lib gen net
       [''/docs'', ''/documentation'', ''/api-docs'', ''/api/documentation'',
        ''/help'', ''/api/help'', ''/reference'', ''/api/reference''] ([], n)"

definition discover_endpoints ::
  "python_lib \<Rightarrow> generator \<Rightarrow> network \<Rightarrow> nat \<Rightarrow> string list \<times> nat" where
  \<comment> \<open>\<open>discover_endpoints\<close>. \<open>if self.custom_endpoints\<close> holds for a list that is given and
      not empty. \<open>list(set(...))\<close> is modelled by \<open>remdups\<close>.\<close>
  "discover_endpoints lib gen net n =
     (case custom_endpoints gen of
        Some (endpoint # rest) \<Rightarrow> probe_custom_endpoints gen net (endpoint # rest) ([], n)
      | _ \<Rightarrow>
          (case probe_patterns gen net (endpoint_patterns gen) ([], n) of
             (discovered_endpoints, n1) \<Rightarrow>
          (case discover_with_openapi gen net n1 of
             (openapi_endpoints, n2) \<Rightarrow>
          (case discover_from_documentation lib gen net n2 of
             (doc_endpoints, n3) \<Rightarrow>
               (remdups (discovered_endpoints @ openapi_endpoints @ doc_endpoints), n3)))))"

section \<open>Endpoint analysis\<close>

fun dict_set :: "(string \<times> 'v) list \<Rightarrow> string \<Rightarrow> 'v \<Rightarrow> (string \<times> 'v) list" where
  \<comment> \<open>\<open>d[key] = value\<close>: a key that is present keeps its place\<close>
  "dict_set [] k v = [(k, v)]"
| "dict_set ((k', v') # rest) k v =
     (if k' = k then (k, v) # rest else (k', v') # dict_set rest k v)"

fun test_methods ::
  "generator \<Rightarrow> network \<Rightarrow> string \<Rightarrow> string list \<Rightarrow> string list \<times> nat \<Rightarrow> string list \<times> nat" where
  \<comment> \<open>\<open>for method in test_methods\<close>\<close>
  "test_methods gen net u [] st = st"
| "test_methods gen net u (m # rest) (methods, n) =
     (case session_request net n m u [] of
        (Raises, n') \<Rightarrow> test_methods gen net u rest (methods, n')
      | (Returns r, n') \<Rightarrow>
          test_methods gen net u rest
            (if is_valid_endpoint r then methods @ [m] else methods, n'))"

definition discover_methods :: "generator \<Rightarrow> network \<Rightarrow> nat \<Rightarrow> string \<Rightarrow> string list \<times> nat" where
  \<comment> \<open>\<open>_discover_methods\<close>\<close>
  "discover_methods gen net n endpoint =
     (case test_methods gen net (base_url gen @ endpoint) [''GET'', ''POST''] ([], n) of
        (methods, n') \<Rightarrow> (if methods = [] then [''GET''] else methods, n'))"

datatype no_params_result =
    NoParamsResponse int json   \<comment> \<open>\<open>{'status_code': ..., 'body': ...}\<close>\<close>
  | NoParamsError               \<comment> \<open>\<open>{'error': str(e)}\<close>; the text of the exception is not modelled\<close>

record method_analysis =
  ma_parameters :: "(string \<times> parameter_info) list"          \<comment> \<open>key \<open>parameters\<close>\<close>
  ma_response_schema :: json                                  \<comment> \<open>key \<open>response_schema\<close>\<close>
  ma_error_responses :: "(string \<times> no_params_result) list"   \<comment> \<open>key \<open>error_responses\<close>\<close>
  ma_parameter_validation :: "(string \<times> validation_info) list" \<comment> \<open>key \<open>parameter_validation\<close>\<close>

fun analyze_parameters ::
  "python_lib \<Rightarrow> network \<Rightarrow> string \<Rightarrow> string \<Rightarrow> (string \<times> param_info) list
     \<Rightarrow> ((string \<times> parameter_info) list \<times> (string \<times> validation_info) list) \<times> nat
     \<Rightarrow> ((string \<times> parameter_info) list \<times> (string \<times> validation_info) list) \<times> nat" where
  \<comment> \<open>\<open>for param_name, param_info in self.parameter_variations.items()\<close>; the result of
      \<open>_analyze_parameter_comprehensive\<close> is a dict that is not empty, so both entries are
      always stored\<close>
  "analyze_parameters lib net u m [] st = st"
| "analyze_parameters lib net u m ((param_name, pinfo) # rest) ((parameters, validation), n) =
     (case analyze_parameter_comprehensive lib net n u m param_name pinfo of
        ((parameter_info, validation_info), n') \<Rightarrow>
          analyze_parameters lib net u m rest
            ((dict_set parameters param_name parameter_info,
              dict_set validation param_name validation_info), n'))"

definition analyze_method_comprehensive ::
  "python_lib \<Rightarrow> generator \<Rightarrow> network \<Rightarrow> nat \<Rightarrow> string \<Rightarrow> string \<Rightarrow> method_analysis \<times> nat" where
  \<comment> \<open>\<open>_analyze_method_comprehensive\<close>\<close>
  "analyze_method_comprehensive lib gen net n endpoint m =
     (let u = base_url gen @ endpoint in
      case session_request net n m u [] of (no_params, n1) \<Rightarrow>
      case analyze_parameters lib net u m (parameter_variations gen) (([], []), n1) of
        ((parameters, validation), n2) \<Rightarrow>
      case (if m = ''GET'' then
              (case session_get net n2 u of
                 (Raises, n') \<Rightarrow> (JObject [], n')
               | (Returns r, n') \<Rightarrow>
                   (if status_code r = 200 then analyze_response_schema_comprehensive r
                    else JObject [], n'))
            else (JObject [], n2)) of
        (schema, n3) \<Rightarrow>
          (\<lparr>ma_parameters = parameters,
            ma_response_schema = schema,
            ma_error_responses =
              [(''no_params'',
                (case no_params of
                   Raises \<Rightarrow> NoParamsError
                 | Returns r \<Rightarrow> NoParamsResponse (status_code r) (safe_json r)))],
            ma_parameter_validation = validation\<rparr>,
           n3))"

record endpoint_analysis =
  ea_endpoint :: string                                                        \<comment> \<open>key \<open>endpoint\<close>\<close>
  ea_methods :: "string list"                                                  \<comment> \<open>key \<open>methods\<close>\<close>
  ea_parameters :: "(string \<times> (string \<times> parameter_info) list) list"           \<comment> \<open>key \<open>parameters\<close>\<close>
  ea_response_schema :: "(string \<times> json) list"                               \<comment> \<open>key \<open>response_schema\<close>\<close>
  ea_error_responses :: "(string \<times> (string \<times> no_params_result) list) list"    \<comment> \<open>key \<open>error_responses\<close>\<close>
  ea_crud_operations :: crud_ops                                               \<comment> \<open>key \<open>crud_operations\<close>\<close>
  ea_parameter_validation :: "(string \<times> (string \<times> validation_info) list) list" \<comment> \<open>key \<open>parameter_validation\<close>\<close>
  ea_status :: string                                                          \<comment> \<open>key \<open>status\<close>\<close>

fun analyze_methods ::
  "python_lib \<Rightarrow> generator \<Rightarrow> network \<Rightarrow> string \<Rightarrow> string list \<Rightarrow> endpoint_analysis \<times> nat
     \<Rightarrow> endpoint_analysis \<times> nat" where
  \<comment> \<open>\<open>for method in analysis['methods']\<close>\<close>
  "analyze_methods lib gen net endpoint [] st = st"
| "analyze_methods lib gen net endpoint (m # rest) (analysis, n) =
     (case analyze_method_comprehensive lib gen net n endpoint m of
        (method_analysis, n') \<Rightarrow>
          analyze_methods lib gen net endpoint rest
            (analysis
               \<lparr>ea_parameters := dict_set (ea_parameters analysis) m (ma_parameters method_analysis),
                ea_response_schema :=
                  dict_set (ea_response_schema analysis) m (ma_response_schema method_analysis),
                ea_error_responses :=
                  dict_set (ea_error_responses analysis) m (ma_error_responses method_analysis),
                ea_parameter_validation :=
                  dict_set (ea_parameter_validation analysis) m
                    (ma_parameter_validation method_analysis)\<rparr>,
             n'))"

definition analyze_endpoint ::
  "python_lib \<Rightarrow> generator \<Rightarrow> network \<Rightarrow> nat \<Rightarrow> string \<Rightarrow> endpoint_analysis \<times> nat" where
  \<comment> \<open>\<open>analyze_endpoint\<close>; every exception of a probe is caught where it is issued, so the
      function raises nothing\<close>
  "analyze_endpoint lib gen net n endpoint =
     (case discover_methods gen net n endpoint of
        (methods, n1) \<Rightarrow>
          analyze_methods lib gen net endpoint methods
            (\<lparr>ea_endpoint = endpoint,
              ea_methods = methods,
              ea_parameters = [],
              ea_response_schema = [],
              ea_error_responses = [],
              ea_crud_operations = identify_crud_operations endpoint,
              ea_parameter_validation = [],
              ea_status = ''success''\<rparr>,
             n1))"

section \<open>The analysis document\<close>

record crud_counts =
  count_create :: nat
  count_read :: nat
  count_update :: nat
  count_delete :: nat

record summary =
  total_endpoints :: nat
  successful_analyses :: nat
  sm_crud_operations :: crud_counts                \<comment> \<open>key \<open>crud_operations\<close>\<close>
  total_parameters :: nat
  parameter_types :: "(string \<times> nat) list"
  sm_validation_patterns :: "string list"          \<comment> \<open>key \<open>validation_patterns\<close>\<close>
  discovery_rate :: rat
    \<comment> \<open>the percentage that the source renders as a string with one decimal place and a
        percent sign; \<open>0\<close> stands for the initial \<open>"0.0%"\<close>\<close>

record analysis_metadata =
  md_generator :: string
  md_version :: string
  md_base_url :: string
  md_custom_endpoints :: bool
  total_patterns_tested :: nat
  total_parameters_tested :: nat
    \<comment> \<open>the entry \<open>generated_at\<close>, the time of the run, is left out\<close>

record analysis_result =
  ar_metadata :: analysis_metadata
  ar_summary :: summary
  ar_endpoints :: "(string \<times> endpoint_analysis) list"
  ar_parameter_variations :: "(string \<times> param_info) list"

datatype analysis_document =
    NoEndpoints string           \<comment> \<open>\<open>{'status': 'error', 'message': 'No endpoints discovered', 'base_url': ...}\<close>\<close>
  | Analysis analysis_result

definition count_types :: "(string \<times> nat) list \<Rightarrow> (string \<times> parameter_info) list \<Rightarrow> (string \<times> nat) list" where
  \<comment> \<open>\<open>param_types[param_type] = param_types.get(param_type, 0) + 1\<close> for every parameter\<close>
  "count_types param_types method_params =
     foldl (\<lambda>types (param_name, pinfo).
              dict_set types (pi_type pinfo)
                ((case map_of types (pi_type pinfo) of Some c \<Rightarrow> c | None \<Rightarrow> 0) + 1))
       param_types method_params"

definition generate_comprehensive_summary ::
  "generator \<Rightarrow> string list \<Rightarrow> (string \<times> endpoint_analysis) list \<Rightarrow> summary" where
  \<comment> \<open>\<open>_generate_comprehensive_summary\<close>; \<open>list(set(validation_patterns))\<close> is modelled by
      \<open>remdups\<close>: Python leaves the order of the result open\<close>
  "generate_comprehensive_summary gen endpoints analyses =
     (let all_method_params = concat (map (\<lambda>(e, a). map snd (ea_parameters a)) analyses);
          all_method_validation = concat (map (\<lambda>(e, a). map snd (ea_parameter_validation a)) analyses)
      in \<lparr>total_endpoints = length endpoints,
          successful_analyses = length (filter (\<lambda>(e, a). ea_status a = ''success'') analyses),
          sm_crud_operations =
            \<lparr>count_create = length (filter (\<lambda>(e, a). create (ea_crud_operations a)) analyses),
             count_read = length (filter (\<lambda>(e, a). read (ea_crud_operations a)) analyses),
             count_update = length (filter (\<lambda>(e, a). update (ea_crud_operations a)) analyses),
             count_delete = length (filter (\<lambda>(e, a). delete (ea_crud_operations a)) analyses)\<rparr>,
          total_parameters = sum_list (map length all_method_params),
          parameter_types = foldl count_types [] all_method_params,
          sm_validation_patterns =
            remdups (concat (map (\<lambda>method_validation.
               concat (map (\<lambda>(param_name, vi). validation_patterns vi) method_validation))
               all_method_validation)),
          discovery_rate =
            (if endpoint_patterns gen \<noteq> [] \<and> length (endpoint_patterns gen) > 0
               then (of_nat (length endpoints) / of_nat (length (endpoint_patterns gen))) * 100
             else 0)\<rparr>)"

fun analyze_endpoints ::
  "python_lib \<Rightarrow> generator \<Rightarrow> network \<Rightarrow> string list \<Rightarrow> (string \<times> endpoint_analysis) list \<times> nat
     \<Rightarrow> (string \<times> endpoint_analysis) list \<times> nat" where
  \<comment> \<open>\<open>for endpoint in endpoints\<close>: \<open>endpoint_analyses[endpoint] = analysis\<close>\<close>
  "analyze_endpoints lib gen net [] st = st"
| "analyze_endpoints lib gen net (endpoint # rest) (endpoint_analyses, n) =
     (case analyze_endpoint lib gen net n endpoint of
        (analysis, n') \<Rightarrow>
          analyze_endpoints lib gen net rest (dict_set endpoint_analyses endpoint analysis, n'))"

definition custom_mode :: "generator \<Rightarrow> bool" where
  \<comment> \<open>the truth value of \<open>self.custom_endpoints\<close>: a list is given and it is not empty\<close>
  "custom_mode gen = (case custom_endpoints gen of Some (e # es) \<Rightarrow> True | _ \<Rightarrow> False)"

definition generate_analysis ::
  "python_lib \<Rightarrow> generator \<Rightarrow> network \<Rightarrow> nat \<Rightarrow> analysis_document \<times> nat" where
  \<comment> \<open>\<open>generate_analysis\<close>\<close>
  "generate_analysis lib gen net n =
     (case discover_endpoints lib gen net n of
        (endpoints, n1) \<Rightarrow>
          if endpoints = [] then (NoEndpoints (base_url gen), n1)
          else
            (case analyze_endpoints lib gen net endpoints ([], n1) of
               (endpoint_analyses, n2) \<Rightarrow>
                 (Analysis
                    \<lparr>ar_metadata =
                       \<lparr>md_generator = ''UniversalAPIGenerator'',
                        md_version = ''1.0.0'',
                        md_base_url = base_url gen,
                        md_custom_endpoints = (custom_endpoints gen \<noteq> None),
                        total_patterns_tested =
                          (if \<not> custom_mode gen then length (endpoint_patterns gen) else 0),
                        total_parameters_tested = length (parameter_variations gen)\<rparr>,
                     ar_summary = generate_comprehensive_summary gen endpoints endpoint_analyses,
                     ar_endpoints = endpoint_analyses,
                     ar_parameter_variations = parameter_variations gen\<rparr>,
                  n2)))"

section \<open>The emitter: operations and the OpenAPI document\<close>

text \<open>
  The emitter reads the document that the engine wrote. Its input is modelled with the
  engine's own types, so that the fixed keys of the engine's dictionaries are always
  present; a dictionary with computed keys (methods, parameter names, endpoints) is an
  association list and \<open>.get\<close> on it has its default.
\<close>

record parameter_schema =
  ps_type :: string               \<comment> \<open>key \<open>type\<close>\<close>
  ps_description :: string        \<comment> \<open>key \<open>description\<close>\<close>
  ps_format :: "string option"    \<comment> \<open>key \<open>format\<close>, when present\<close>
  ps_default :: "string option"   \<comment> \<open>key \<open>default\<close>, when present\<close>

record parameter_object =
  po_name :: string               \<comment> \<open>key \<open>name\<close>\<close>
  po_in :: string                 \<comment> \<open>key \<open>in\<close>\<close>
  po_required :: bool             \<comment> \<open>key \<open>required\<close>\<close>
  po_schema :: parameter_schema   \<comment> \<open>key \<open>schema\<close>\<close>

record operation =
  op_summary :: string
  op_description :: string
  op_operation_id :: string
  op_tags :: "string list"
  op_response_200_schema :: json
    \<comment> \<open>the schema of the response \<open>200\<close>; the responses \<open>400\<close> and \<open>404\<close> are constants\<close>
  op_parameters :: "parameter_object list option"   \<comment> \<open>key \<open>parameters\<close>, when present\<close>
  op_request_body :: "string option"
    \<comment> \<open>the description of \<open>requestBody\<close>, when present; the rest of it is constant\<close>

definition create_parameter_schema :: "parameter_info \<Rightarrow> parameter_schema" where
  \<comment> \<open>\<open>_create_parameter_schema\<close>; the engine's \<open>parameter_info\<close> has the key \<open>default\<close> and
      neither \<open>name\<close> nor \<open>example\<close>\<close>
  "create_parameter_schema pinfo =
     (let param_type = type_mapping_get (pi_type pinfo) in
      \<lparr>ps_type = param_type,
       ps_description = ''parameter'' @ '' parameter'',
       ps_format =
         (if param_type = ''string'' then
            (if pi_type pinfo = ''date'' then Some ''date''
             else if pi_type pinfo = ''email'' then Some ''email''
             else if pi_type pinfo = ''url'' then Some ''uri''
             else if pi_type pinfo = ''uuid'' then Some ''uuid''
             else None)
          else None),
       ps_default = Some (pi_default pinfo)\<rparr>)"

fun py_join :: "string \<Rightarrow> string list \<Rightarrow> string" where
  \<comment> \<open>\<open>sep.join(xs)\<close>\<close>
  "py_join sep [] = []"
| "py_join sep [x] = x"
| "py_join sep (x # y # ys) = x @ sep @ py_join sep (y # ys)"

fun create_parameter_objects ::
  "(string \<times> parameter_info) list \<Rightarrow> (string \<times> validation_info) list \<Rightarrow> parameter_object list" where
  \<comment> \<open>\<open>for param_name, param_info in method_params.items()\<close> in \<open>_create_operation\<close>\<close>
  "create_parameter_objects [] parameter_validation = []"
| "create_parameter_objects ((param_name, pinfo) # rest) parameter_validation =
     (let is_accepted = pi_accepted pinfo;
          accepted =
            (case map_of parameter_validation param_name of
               Some validation_info \<Rightarrow> accepted_values validation_info
             | None \<Rightarrow> []);
          has_accepted_values = (length accepted > 0)
      in if is_accepted \<or> has_accepted_values then
           (let schema = create_parameter_schema pinfo in
            \<lparr>po_name = param_name,
             po_in = ''query'',
             po_required = pi_required pinfo,
             po_schema =
               (if accepted \<noteq> [] then
                  schema\<lparr>ps_description :=
                    param_name @ '' parameter. Accepted values: '' @ py_join '', '' (take 3 accepted)
                    @ (if length accepted > 3 then ''...'' else [])\<rparr>
                else schema)\<rparr>)
           # create_parameter_objects rest parameter_validation
         else create_parameter_objects rest parameter_validation)"

definition operation_id :: "string \<Rightarrow> string \<Rightarrow> string" where
  \<comment> \<open>\<open>f"{method_lower}_{endpoint.replace('/', '_').replace('-', '_').strip('_')}"\<close>\<close>
  "operation_id method_lower endpoint =
     (let replaced = map (\<lambda>c. if c = CHR ''/'' \<or> c = CHR ''-'' then CHR ''_'' else c) endpoint;
          stripped = rev (dropWhile (\<lambda>c. c = CHR ''_'') (rev (dropWhile (\<lambda>c. c = CHR ''_'') replaced)))
      in method_lower @ ''_'' @ stripped)"

definition tag_name :: "string \<Rightarrow> string" where
  \<comment> \<open>\<open>endpoint.split('/')[1] if len(endpoint.split('/')) > 1 else 'default'\<close>\<close>
  "tag_name endpoint =
     (case py_split_slash endpoint of
        first # second # others \<Rightarrow> second
      | _ \<Rightarrow> ''default'')"

definition create_operation :: "string \<Rightarrow> string \<Rightarrow> endpoint_analysis \<Rightarrow> py_error + operation" where
  \<comment> \<open>\<open>_create_operation\<close>\<close>
  "create_operation endpoint m endpoint_data =
     (let method_lower = py_lower m;
          method_params =
            (case map_of (ea_parameters endpoint_data) m of Some ps \<Rightarrow> ps | None \<Rightarrow> []);
          response_schema =
            (case map_of (ea_response_schema endpoint_data) m of Some s \<Rightarrow> s | None \<Rightarrow> JObject []);
          parameter_validation =
            (case map_of (ea_parameter_validation endpoint_data) m of Some vs \<Rightarrow> vs | None \<Rightarrow> [])
      in case create_response_schema response_schema of
           Inl e \<Rightarrow> Inl e
         | Inr schema \<Rightarrow>
             Inr \<lparr>op_summary = m @ '' '' @ endpoint,
                  op_description = ''Endpoint for '' @ endpoint,
                  op_operation_id = operation_id method_lower endpoint,
                  op_tags = [tag_name endpoint],
                  op_response_200_schema = schema,
                  op_parameters =
                    (if method_params \<noteq> []
                       then Some (create_parameter_objects method_params parameter_validation)
                     else None),
                  op_request_body =
                    (if m \<in> set [''POST'', ''PUT'', ''PATCH'']
                       then Some (''Data for '' @ m @ '' '' @ endpoint)
                     else None)\<rparr>)"

record swagger_spec =
  sp_title :: string                                      \<comment> \<open>\<open>info.title\<close>\<close>
  sp_description :: string                                \<comment> \<open>\<open>info.description\<close>\<close>
  sp_version :: string                                    \<comment> \<open>\<open>info.version\<close>\<close>
  sp_server_url :: string                                 \<comment> \<open>\<open>servers[0].url\<close>\<close>
  sp_paths :: "(string \<times> (string \<times> operation) list) list"  \<comment> \<open>\<open>paths\<close>\<close>
  sp_tags :: "string list"                                \<comment> \<open>the names of \<open>tags\<close>\<close>

fun create_operations ::
  "string \<Rightarrow> endpoint_analysis \<Rightarrow> string list \<Rightarrow> (string \<times> operation) list
     \<Rightarrow> py_error + (string \<times> operation) list" where
  \<comment> \<open>\<open>for method in methods\<close>: \<open>path_obj[method.lower()] = operation\<close>\<close>
  "create_operations endpoint endpoint_data [] path_obj = Inr path_obj"
| "create_operations endpoint endpoint_data (m # rest) path_obj =
     (case create_operation endpoint m endpoint_data of
        Inl e \<Rightarrow> Inl e
      | Inr operation \<Rightarrow>
          create_operations endpoint endpoint_data rest (dict_set path_obj (py_lower m) operation))"

fun add_paths :: "(string \<times> endpoint_analysis) list \<Rightarrow> swagger_spec \<Rightarrow> py_error + swagger_spec" where
  \<comment> \<open>\<open>for endpoint, endpoint_data in endpoints.items()\<close>\<close>
  "add_paths [] spec = Inr spec"
| "add_paths ((endpoint, endpoint_data) # rest) spec =
     (if ea_status endpoint_data \<noteq> ''success'' then add_paths rest spec
      else
        (case create_operations endpoint endpoint_data (ea_methods endpoint_data) [] of
           Inl e \<Rightarrow> Inl e
         | Inr path_obj \<Rightarrow>
             add_paths rest
               (spec\<lparr>sp_paths := dict_set (sp_paths spec) endpoint path_obj,
                     sp_tags :=
                       (if tag_name endpoint \<notin> set (sp_tags spec)
                          then sp_tags spec @ [tag_name endpoint]
                        else sp_tags spec)\<rparr>)))"

definition generate_swagger_spec :: "analysis_document \<Rightarrow> py_error + swagger_spec" where
  \<comment> \<open>\<open>generate_swagger_spec\<close> on the document the engine wrote. The error document is a
      dict that is not empty, without \<open>metadata\<close> and \<open>endpoints\<close>: the defaults apply.\<close>
  "generate_swagger_spec analysis =
     (case analysis of
        NoEndpoints b \<Rightarrow>
          Inr \<lparr>sp_title = ''API'' @ '' Documentation'',
               sp_description = ''API documentation generated by '' @ ''Universal API Generator'',
               sp_version = ''1.0.0'',
               sp_server_url = ''https://api.example.com'',
               sp_paths = [],
               sp_tags = []\<rparr>
      | Analysis doc \<Rightarrow>
          add_paths (ar_endpoints doc)
            \<lparr>sp_title = md_generator (ar_metadata doc) @ '' Documentation'',
             sp_description = ''API documentation generated by '' @ md_generator (ar_metadata doc),
             sp_version = md_version (ar_metadata doc),
             sp_server_url = md_base_url (ar_metadata doc),
             sp_paths = [],
             sp_tags = []\<rparr>)"

definition emitted_parameters :: "swagger_spec \<Rightarrow> parameter_object list" where
  \<comment> \<open>every parameter object of every operation of the document\<close>
  "emitted_parameters spec =
     concat (map (\<lambda>(path, path_obj).
       concat (map (\<lambda>(method_lower, operation).
         (case op_parameters operation of Some ps \<Rightarrow> ps | None \<Rightarrow> [])) path_obj))
       (sp_paths spec))"

section \<open>Invariants of the engine's profiles\<close>

definition accepted_in :: "(string \<times> validation_info) list \<Rightarrow> string \<Rightarrow> string list" where
  \<comment> \<open>\<open>parameter_validation.get(param_name, {}).get('accepted_values', [])\<close>\<close>
  "accepted_in parameter_validation param_name =
     (case map_of parameter_validation param_name of
        Some validation_info \<Rightarrow> accepted_values validation_info
      | None \<Rightarrow> [])"

definition consistent_profiles ::
  "(string \<times> parameter_info) list \<Rightarrow> (string \<times> validation_info) list \<Rightarrow> bool" where
  \<comment> \<open>the parameter names are distinct, and a parameter that is flagged accepted, or whose
      validation entry has accepted values, is not flagged required\<close>
  "consistent_profiles parameters validation =
     (distinct (map fst parameters) \<and>
      (\<forall>(param_name, pinfo) \<in> set parameters.
         pi_accepted pinfo \<or> accepted_in validation param_name \<noteq> [] \<longrightarrow> \<not> pi_required pinfo))"

definition well_profiled :: "endpoint_analysis \<Rightarrow> bool" where
  \<comment> \<open>for every method the profiles are consistent, and every response schema is one that
      the emitter converts\<close>
  "well_profiled a =
     ((\<forall>m. consistent_profiles
             (case map_of (ea_parameters a) m of Some ps \<Rightarrow> ps | None \<Rightarrow> [])
             (case map_of (ea_parameter_validation a) m of Some vs \<Rightarrow> vs | None \<Rightarrow> [])) \<and>
      (\<forall>m s. map_of (ea_response_schema a) m = Some s \<longrightarrow>
             (\<exists>converted. create_response_schema s = Inr converted)))"

definition all_optional :: "(string \<times> operation) list \<Rightarrow> bool" where
  \<comment> \<open>no parameter object of these operations is required\<close>
  "all_optional path_obj =
     (\<forall>(method_lower, operation) \<in> set path_obj.
        \<forall>p \<in> set (case op_parameters operation of Some ps \<Rightarrow> ps | None \<Rightarrow> []). \<not> po_required p)"

section \<open>Example inputs\<close>

definition always :: "int \<Rightarrow> network" where
  \<comment> \<open>a service that answers every request with the given status and a body that is not JSON\<close>
  "always status = (\<lambda>n req. Returns \<lparr>status_code = status, json_result = None, body_text = []\<rparr>)"

definition rejects_page_2 :: network where
  \<comment> \<open>a service that answers 400 to \<open>page=2\<close> and 200 to everything else\<close>
  "rejects_page_2 =
     (\<lambda>n req. if params req = [(''page'', ''2'')] then always 400 n req else always 200 n req)"

definition no_lib :: python_lib where
  "no_lib = \<lparr>py_repr = (\<lambda>v. []), re_findall = (\<lambda>pattern s. [])\<rparr>"

definition page_info :: param_info where
  "page_info = \<lparr>default_value = ''1'', test_values = [''2'', ''10''], error_value = ''abc''\<rparr>"

definition json_response :: "json \<Rightarrow> response" where
  \<comment> \<open>a 200 response whose body parses as the given JSON value (the text of the body is not
      used where parsing succeeds)\<close>
  "json_response body = \<lparr>status_code = 200, json_result = Some body, body_text = []\<rparr>"

definition text_response :: "string \<Rightarrow> response" where
  \<comment> \<open>a 200 response whose body is not JSON\<close>
  "text_response body = \<lparr>status_code = 200, json_result = None, body_text = body\<rparr>"

definition twice_users :: generator where
  \<comment> \<open>the generator for the arguments \<open>http://api -e /users users\<close>\<close>
  "twice_users = new_generator ''http://api'' (Some [''/users'', ''users''])"

definition only_users :: generator where
  \<comment> \<open>the generator for the arguments \<open>http://api -e /users\<close>\<close>
  "only_users = new_generator ''http://api'' (Some [''/users''])"

definition users_with_page :: generator where
  \<comment> \<open>the generator for \<open>http://api -e /users\<close> with one entry restored in the catalog of
      parameters\<close>
  "users_with_page = only_users\<lparr>parameter_variations := [(''page'', page_info)]\<rparr>"

section \<open>Properties of the parameter profiler\<close>

lemma bucketed_Nil [simp]: "bucketed P [] outs = []"
  by (simp add: bucketed_def)

lemma bucketed_Cons [simp]:
  "bucketed P (v # vs) (out # outs) = (if P out then v # bucketed P vs outs else bucketed P vs outs)"
  by (simp add: bucketed_def)

lemma length_probe_outcomes [simp]: "length (probe_outcomes net n u m pn vs) = length vs"
  by (induction vs arbitrary: n) simp_all

lemma probe_outcomes_append:
  "probe_outcomes net n u m pn (vs @ ws) =
     probe_outcomes net n u m pn vs @ probe_outcomes net (n + length vs) u m pn ws"
  by (induction vs arbitrary: n) simp_all

lemma bucketed_append:
  "length vs = length outs \<Longrightarrow>
     bucketed P (vs @ ws) (outs @ outs') = bucketed P vs outs @ bucketed P ws outs'"
  by (simp add: bucketed_def)

lemma bucketed_shorter:
  "length vs = length outs \<Longrightarrow> bucketed P vs (outs @ outs') = bucketed P vs outs"
  using bucketed_append [of vs outs P "[]" outs'] by simp

lemma probe_value_effect:
  "probe_value net u m pn v (vi, n) =
     (vi\<lparr>accepted_values := accepted_values vi @ bucketed status_accepts [v] [net n (probe_request u m pn v)],
         rejected_values := rejected_values vi @ bucketed status_rejects [v] [net n (probe_request u m pn v)]\<rparr>,
      Suc n)"
  by (cases "net n (probe_request u m pn v)")
     (auto simp: probe_value_def session_request_def probe_request_def status_accepts_def status_rejects_def)

lemma probe_test_values_effect:
  "probe_test_values net u m pn vs (vi, n) =
     (vi\<lparr>accepted_values := accepted_values vi @ bucketed status_accepts vs (probe_outcomes net n u m pn vs),
         rejected_values := rejected_values vi @ bucketed status_rejects vs (probe_outcomes net n u m pn vs)\<rparr>,
      n + length vs)"
proof (induction vs arbitrary: vi n)
  case Nil
  show ?case by simp
next
  case (Cons v vs)
  show ?case
    by (simp add: probe_value_effect Cons.IH)
qed

lemma probe_error_value_effect:
  "accepted_values (fst (probe_error_value lib net u m pn v (vi, n))) = accepted_values vi"
  "rejected_values (fst (probe_error_value lib net u m pn v (vi, n))) =
     rejected_values vi @ bucketed status_rejects [v] [net n (probe_request u m pn v)]"
  "required (fst (probe_error_value lib net u m pn v (vi, n))) = required vi"
  "snd (probe_error_value lib net u m pn v (vi, n)) = Suc n"
  by (cases "net n (probe_request u m pn v)";
      simp add: probe_error_value_def session_request_def probe_request_def status_rejects_def Let_def
           split: option.splits)+


lemma determine_required_fields:
  "accepted_values (determine_required vi) = accepted_values vi"
  "rejected_values (determine_required vi) = rejected_values vi"
  "required (determine_required vi) =
     (if accepted_values vi \<noteq> [] \<and> rejected_values vi = [] then False
      else if rejected_values vi \<noteq> [] \<and> accepted_values vi = [] then True
      else required vi)"
  by (simp_all add: determine_required_def)

lemma analyze_parameter_result:
  fixes pinfo :: param_info and lib :: python_lib and net :: network and n :: nat
    and u m pn :: string
  defines "vals \<equiv> default_value pinfo # test_values pinfo"
  defines "R \<equiv> analyze_parameter_comprehensive lib net n u m pn pinfo"
  shows "accepted_values (snd (fst R)) =
           bucketed status_accepts vals (probe_outcomes net n u m pn vals)"
    and "rejected_values (snd (fst R)) =
           bucketed status_rejects (vals @ [error_value pinfo])
             (probe_outcomes net n u m pn (vals @ [error_value pinfo]))"
    and "snd R = n + length vals + 1"
    and "required (snd (fst R)) =
           (rejected_values (snd (fst R)) \<noteq> [] \<and> accepted_values (snd (fst R)) = [])"
    and "inferred_type (snd (fst R)) = infer_parameter_type (accepted_values (snd (fst R)))"
    and "pi_required (fst (fst R)) = required (snd (fst R))"
    and "pi_accepted (fst (fst R)) = (accepted_values (snd (fst R)) \<noteq> [])"
    and "pi_type (fst (fst R)) = inferred_type (snd (fst R))"
    and "pi_default (fst (fst R)) = default_value pinfo"
proof -
  let ?st1 = "probe_value net u m pn (default_value pinfo) (initial_validation_info, n)"
  let ?st2 = "probe_test_values net u m pn (test_values pinfo) ?st1"
  let ?st3 = "probe_error_value lib net u m pn (error_value pinfo) ?st2"
  obtain vi2 where st2: "?st2 = (vi2, n + length vals)"
    and acc2: "accepted_values vi2 = bucketed status_accepts vals (probe_outcomes net n u m pn vals)"
    and rej2: "rejected_values vi2 = bucketed status_rejects vals (probe_outcomes net n u m pn vals)"
    and req2: "required vi2 = False"
    by (simp add: probe_value_effect probe_test_values_effect initial_validation_info_def vals_def)
  have acc3: "accepted_values (fst ?st3) = accepted_values vi2"
    and rej3: "rejected_values (fst ?st3) = rejected_values vi2 @
        bucketed status_rejects [error_value pinfo]
          [net (n + length vals) (probe_request u m pn (error_value pinfo))]"
    and req3: "required (fst ?st3) = False"
    and n3: "snd ?st3 = Suc (n + length vals)"
    unfolding st2 by (simp_all add: probe_error_value_effect req2)
  have rej_all: "rejected_values (fst ?st3) =
      bucketed status_rejects (vals @ [error_value pinfo])
        (probe_outcomes net n u m pn (vals @ [error_value pinfo]))"
    by (simp add: rej3 rej2 probe_outcomes_append bucketed_append)
  have R: "R = ((\<lparr>pi_type = infer_parameter_type (accepted_values (determine_required (fst ?st3))),
                  pi_required = required (determine_required (fst ?st3)),
                  pi_default = default_value pinfo,
                  pi_accepted = (length (accepted_values (determine_required (fst ?st3))) > 0)\<rparr>,
                (determine_required (fst ?st3))
                  \<lparr>inferred_type := infer_parameter_type (accepted_values (determine_required (fst ?st3)))\<rparr>),
               snd ?st3)"
    by (simp add: R_def analyze_parameter_comprehensive_def Let_def)
  show "accepted_values (snd (fst R)) =
           bucketed status_accepts vals (probe_outcomes net n u m pn vals)"
    by (simp add: R determine_required_fields acc3 acc2)
  show "rejected_values (snd (fst R)) =
           bucketed status_rejects (vals @ [error_value pinfo])
             (probe_outcomes net n u m pn (vals @ [error_value pinfo]))"
    by (simp add: R determine_required_fields rej_all)
  show "snd R = n + length vals + 1"
    by (simp add: R n3)
  show "required (snd (fst R)) =
           (rejected_values (snd (fst R)) \<noteq> [] \<and> accepted_values (snd (fst R)) = [])"
    by (auto simp add: R determine_required_fields req3)
  show "inferred_type (snd (fst R)) = infer_parameter_type (accepted_values (snd (fst R)))"
    by (simp add: R)
  show "pi_required (fst (fst R)) = required (snd (fst R))"
    by (simp add: R)
  show "pi_accepted (fst (fst R)) = (accepted_values (snd (fst R)) \<noteq> [])"
    by (simp add: R)
  show "pi_type (fst (fst R)) = inferred_type (snd (fst R))"
    by (simp add: R)
  show "pi_default (fst (fst R)) = default_value pinfo"
    by (simp add: R)
qed

lemma bucketed_deterministic:
  "\<forall>k r. net k r = net 0 r \<Longrightarrow>
     bucketed P vs (probe_outcomes net n u m pn vs) =
       filter (\<lambda>v. P (net 0 (probe_request u m pn v))) vs"
proof (induction vs arbitrary: n)
  case Nil
  show ?case by simp
next
  case (Cons v vs)
  from Cons.prems have e: "net n (probe_request u m pn v) = net 0 (probe_request u m pn v)" by blast
  show ?case by (simp add: e Cons.IH [OF Cons.prems])
qed

lemma filter_empty_mset: "mset xs = mset ys \<Longrightarrow> (filter P xs = []) = (filter P ys = [])"
proof -
  assume "mset xs = mset ys"
  then have s: "set xs = set ys" by (rule mset_eq_setD)
  show ?thesis unfolding filter_empty_conv s ..
qed


lemmas profiler_eval = analyze_parameter_comprehensive_def probe_value_def probe_error_value_def
  session_request_def initial_validation_info_def determine_required_def always_def page_info_def
  extract_validation_error_def safe_json_def Let_def

text \<open>
  C1 (as the code has it). The default value and every test value are bucketed by the status
  of their own probe: 200, 401 or 403 appends the value to \<open>accepted_values\<close> only, 400
  appends it to \<open>rejected_values\<close> only, and any other status or a raised exception leaves
  both buckets as they were. The error value is recorded only on a 400, in
  \<open>rejected_values\<close>; with any other status, 200, 401 and 403 included, it enters neither
  bucket. No outcome aborts the sweep: all probes are issued, one request each.
\<close>

theorem probes_bucketed_by_status:
  fixes pinfo :: param_info
  shows "let vals = default_value pinfo # test_values pinfo;
             R = analyze_parameter_comprehensive lib net n u m pn pinfo
         in accepted_values (snd (fst R)) =
              bucketed status_accepts vals (probe_outcomes net n u m pn vals)
          \<and> rejected_values (snd (fst R)) =
              bucketed status_rejects (vals @ [error_value pinfo])
                (probe_outcomes net n u m pn (vals @ [error_value pinfo]))
          \<and> snd R = n + length vals + 1"
  unfolding Let_def
  using analyze_parameter_result(1,2,3) [of lib net n u m pn pinfo] by simp

theorem probes_bucketed_by_status_witness:
  "accepted_values (snd (fst (analyze_parameter_comprehensive no_lib
      rejects_page_2
      0 ''http://api/users'' ''GET'' ''page'' page_info))) = [''1'', ''10'']
   \<and> rejected_values (snd (fst (analyze_parameter_comprehensive no_lib
      rejects_page_2
      0 ''http://api/users'' ''GET'' ''page'' page_info))) = [''2'']"
  using probes_bucketed_by_status [of page_info no_lib
      rejects_page_2
      0 "''http://api/users''" "''GET''" "''page''"]
  by (simp add: Let_def page_info_def always_def rejects_page_2_def status_accepts_def status_rejects_def probe_request_def)

text \<open>
  C1 as stated fails for the error value: its probe is answered with status 200, and the
  value is in neither bucket.
\<close>

theorem invalid_value_accepted_counterexample:
  "always 200 3 (probe_request ''http://api/users'' ''GET'' ''page'' (error_value page_info)) =
     Returns \<lparr>status_code = 200, json_result = None, body_text = []\<rparr>
   \<and> error_value page_info \<notin> set (accepted_values (snd (fst
        (analyze_parameter_comprehensive no_lib (always 200) 0 ''http://api/users'' ''GET'' ''page'' page_info))))
   \<and> error_value page_info \<notin> set (rejected_values (snd (fst
        (analyze_parameter_comprehensive no_lib (always 200) 0 ''http://api/users'' ''GET'' ''page'' page_info))))"
  by (simp add: profiler_eval)

text \<open>
  C4. The \<open>required\<close> flag of a profile is true exactly when \<open>rejected_values\<close> is not
  empty and \<open>accepted_values\<close> is empty, so it is false when a value was accepted, when both
  buckets are filled and when both are empty. It does not depend on the order of the values
  in the buckets, nor, against a service that answers a request the same way every time, on
  the order of the test values.
\<close>

theorem required_iff_only_rejections:
  fixes pinfo pinfo' :: param_info
  shows "(let R = analyze_parameter_comprehensive lib net n u m pn pinfo
          in required (snd (fst R)) =
               (rejected_values (snd (fst R)) \<noteq> [] \<and> accepted_values (snd (fst R)) = [])
           \<and> pi_required (fst (fst R)) = required (snd (fst R)))
       \<and> (mset (accepted_values vi') = mset (accepted_values vi) \<longrightarrow>
          mset (rejected_values vi') = mset (rejected_values vi) \<longrightarrow>
          required vi' = required vi \<longrightarrow>
            required (determine_required vi') = required (determine_required vi))
       \<and> ((\<forall>k r. net k r = net 0 r) \<longrightarrow>
          default_value pinfo' = default_value pinfo \<longrightarrow>
          error_value pinfo' = error_value pinfo \<longrightarrow>
          mset (test_values pinfo') = mset (test_values pinfo) \<longrightarrow>
            required (snd (fst (analyze_parameter_comprehensive lib net n u m pn pinfo'))) =
            required (snd (fst (analyze_parameter_comprehensive lib net n u m pn pinfo))))"
proof (intro conjI impI)
  show "let R = analyze_parameter_comprehensive lib net n u m pn pinfo
        in required (snd (fst R)) =
             (rejected_values (snd (fst R)) \<noteq> [] \<and> accepted_values (snd (fst R)) = [])
         \<and> pi_required (fst (fst R)) = required (snd (fst R))"
    unfolding Let_def
    using analyze_parameter_result(4,6) [of lib net n u m pn pinfo] by simp
next
  assume a: "mset (accepted_values vi') = mset (accepted_values vi)"
    and r: "mset (rejected_values vi') = mset (rejected_values vi)"
    and q: "required vi' = required vi"
  from a have a': "accepted_values vi' = [] \<longleftrightarrow> accepted_values vi = []"
    by (metis mset_zero_iff)
  from r have r': "rejected_values vi' = [] \<longleftrightarrow> rejected_values vi = []"
    by (metis mset_zero_iff)
  show "required (determine_required vi') = required (determine_required vi)"
    by (simp add: determine_required_fields a' r' q)
next
  assume det: "\<forall>k r. net k r = net 0 r"
    and d: "default_value pinfo' = default_value pinfo"
    and e: "error_value pinfo' = error_value pinfo"
    and t: "mset (test_values pinfo') = mset (test_values pinfo)"
  let ?A = "\<lambda>v. status_accepts (net 0 (probe_request u m pn v))"
  let ?R = "\<lambda>v. status_rejects (net 0 (probe_request u m pn v))"
  let ?vi = "\<lambda>p. snd (fst (analyze_parameter_comprehensive lib net n u m pn p))"
  have acc: "accepted_values (?vi p) = filter ?A (default_value p # test_values p)" for p
    by (simp only: analyze_parameter_result(1) bucketed_deterministic [OF det])
  have rej: "rejected_values (?vi p) = filter ?R ((default_value p # test_values p) @ [error_value p])" for p
    by (simp only: analyze_parameter_result(2) bucketed_deterministic [OF det])
  from t d have m1: "mset (default_value pinfo' # test_values pinfo') =
      mset (default_value pinfo # test_values pinfo)" by simp
  from t d e have m2: "mset ((default_value pinfo' # test_values pinfo') @ [error_value pinfo']) =
      mset ((default_value pinfo # test_values pinfo) @ [error_value pinfo])" by simp
  have a: "accepted_values (?vi pinfo') = [] \<longleftrightarrow> accepted_values (?vi pinfo) = []"
    unfolding acc by (rule filter_empty_mset [OF m1])
  have r: "rejected_values (?vi pinfo') = [] \<longleftrightarrow> rejected_values (?vi pinfo) = []"
    unfolding rej by (rule filter_empty_mset [OF m2])
  show "required (?vi pinfo') = required (?vi pinfo)"
    by (simp only: analyze_parameter_result(4) a r)
qed

theorem required_iff_only_rejections_witness:
  "required (snd (fst (analyze_parameter_comprehensive no_lib (always 400) 0 ''http://api/users'' ''GET''
       ''page'' page_info)))
   \<and> rejected_values (snd (fst (analyze_parameter_comprehensive no_lib (always 400) 0 ''http://api/users''
       ''GET'' ''page'' page_info))) = [''1'', ''2'', ''10'', ''abc'']
   \<and> required (snd (fst (analyze_parameter_comprehensive no_lib (always 400) 0 ''http://api/users'' ''GET''
       ''page'' (page_info\<lparr>test_values := [''10'', ''2'']\<rparr>))))"
  using required_iff_only_rejections [of no_lib "always 400" 0 "''http://api/users''" "''GET''" "''page''"
      page_info "initial_validation_info" "initial_validation_info" "page_info\<lparr>test_values := [''10'', ''2'']\<rparr>"]
  by (simp add: profiler_eval)













section \<open>Properties of the CRUD classification\<close>

lemma py_split_slash_not_Nil [simp]: "py_split_slash s \<noteq> []"
  by (induction s) (auto split: list.splits)

lemma py_split_slash_unfold:
  "py_split_slash s =
     takeWhile (\<lambda>c. c \<noteq> CHR ''/'') s #
       (case dropWhile (\<lambda>c. c \<noteq> CHR ''/'') s of [] \<Rightarrow> [] | slash # after \<Rightarrow> py_split_slash after)"
proof (induction s)
  case Nil
  show ?case by simp
next
  case (Cons c cs)
  show ?case
  proof (cases "c = CHR ''/''")
    case True
    then show ?thesis by simp
  next
    case False
    then show ?thesis by (simp add: Cons.IH)
  qed
qed

lemma groups_of_segments_first: "groups_of_segments (x # segs) = groups_of_segments (y # segs)"
  by (induction "x # segs" arbitrary: x segs rule: groups_of_segments.induct) simp_all

lemma resource_search_segments: "resource_search e = groups_of_segments (py_split_slash e)"
proof (induction e)
  case Nil
  show ?case by simp
next
  case (Cons c cs)
  obtain s0 ss where split: "py_split_slash cs = s0 # ss"
    by (cases "py_split_slash cs") simp_all
  show ?case
  proof (cases "c = CHR ''/''")
    case False
    then have "resource_search (c # cs) = resource_search cs"
      by (simp add: resource_match_at_def)
    also have "\<dots> = groups_of_segments (s0 # ss)"
      by (simp add: Cons.IH split)
    also have "\<dots> = groups_of_segments ((c # s0) # ss)"
      by (rule groups_of_segments_first)
    also have "\<dots> = groups_of_segments (py_split_slash (c # cs))"
      using False by (simp add: split)
    finally show ?thesis .
  next
    case True
    let ?a = "takeWhile (\<lambda>c. c \<noteq> CHR ''/'') cs"
    let ?r = "dropWhile (\<lambda>c. c \<noteq> CHR ''/'') cs"
    have lhs: "py_split_slash (c # cs) = [] # py_split_slash cs"
      using True by simp
    show ?thesis
    proof (cases ?r)
      case Nil
      then have s: "py_split_slash cs = [?a]"
        using py_split_slash_unfold [of cs] unfolding Nil by simp
      show ?thesis
        using True Nil by (simp add: lhs s Cons.IH resource_match_at_def re_segment_def del: dropWhile_eq_Nil_conv)
    next
      case (Cons slash after)
      let ?b = "takeWhile (\<lambda>c. c \<noteq> CHR ''/'') after"
      let ?r2 = "dropWhile (\<lambda>c. c \<noteq> CHR ''/'') after"
      have s: "py_split_slash cs = ?a # py_split_slash after"
        using py_split_slash_unfold [of cs] unfolding Cons by simp
      show ?thesis
      proof (cases ?r2)
        case Nil
        then have s2: "py_split_slash after = [?b]"
          using py_split_slash_unfold [of after] unfolding Nil by simp
        show ?thesis
          using True Cons Nil
          by (simp add: lhs s s2 Cons.IH resource_match_at_def re_segment_def del: dropWhile_eq_Nil_conv)
      next
        case (Cons slash2 after2)
        obtain c0 rest where s3: "py_split_slash after2 = c0 # rest"
          by (cases "py_split_slash after2") simp_all
        have s2: "py_split_slash after = ?b # c0 # rest"
          using py_split_slash_unfold [of after] unfolding Cons by (simp add: s3)
        show ?thesis
          using True \<open>?r = slash # after\<close> Cons
          by (simp add: lhs s s2 Cons.IH resource_match_at_def re_segment_def del: dropWhile_eq_Nil_conv)
      qed
    qed
  qed
qed

lemma groups_of_segments_matched:
  "groups_of_segments segs \<noteq> None \<longleftrightarrow> 2 \<le> length segs \<and> last segs \<noteq> []"
  by (induction segs rule: groups_of_segments.induct) auto

lemma groups_of_segments_has_id:
  "(\<exists>g1 g2. groups_of_segments segs = Some (g1, Some g2)) \<longleftrightarrow>
     3 \<le> length segs \<and> last segs \<noteq> [] \<and> last (butlast segs) \<noteq> []"
  by (induction segs rule: groups_of_segments.induct) auto

lemma ends_with_segment_iff: "ends_with_segment e \<longleftrightarrow> resource_search e \<noteq> None"
  unfolding ends_with_segment_def Let_def resource_search_segments
  using groups_of_segments_matched [of "py_split_slash e"] by simp

lemma ends_with_two_segments_iff:
  "ends_with_two_segments e \<longleftrightarrow> (\<exists>g1 g2. resource_search e = Some (g1, Some g2))"
  unfolding ends_with_two_segments_def Let_def resource_search_segments
  using groups_of_segments_has_id [of "py_split_slash e"] by simp

lemma analyze_methods_crud:
  "ea_crud_operations (fst (analyze_methods lib gen net endpoint ms (a, n))) = ea_crud_operations a"
proof (induction ms arbitrary: a n)
  case Nil
  show ?case by simp
next
  case (Cons m ms)
  show ?case
    by (cases "analyze_method_comprehensive lib gen net n endpoint m") (simp add: Cons.IH)
qed

lemma analyze_endpoint_crud:
  "ea_crud_operations (fst (analyze_endpoint lib gen net n endpoint)) = identify_crud_operations endpoint"
  by (cases "discover_methods gen net n endpoint") (simp add: analyze_endpoint_def analyze_methods_crud)

lemma identify_crud_operations_shape:
  "identify_crud_operations endpoint =
     (if \<not> ends_with_segment endpoint
        then \<lparr>create = False, read = False, update = False, delete = False\<rparr>
      else if py_contains ''auth'' (py_lower endpoint) \<or> py_contains ''login'' (py_lower endpoint)
        then \<lparr>create = True, read = False, update = False, delete = False\<rparr>
      else if py_contains ''search'' (py_lower endpoint) \<or> py_contains ''find'' (py_lower endpoint)
        then \<lparr>create = False, read = True, update = False, delete = False\<rparr>
      else \<lparr>create = \<not> ends_with_two_segments endpoint, read = True,
            update = ends_with_two_segments endpoint, delete = ends_with_two_segments endpoint\<rparr>)"
proof (cases "resource_search endpoint")
  case None
  then show ?thesis
    by (simp add: identify_crud_operations_def ends_with_segment_iff)
next
  case (Some groups)
  obtain resource group2 where g: "groups = (resource, group2)"
    by (cases groups)
  have two: "ends_with_two_segments endpoint \<longleftrightarrow> group2 \<noteq> None"
    by (auto simp add: ends_with_two_segments_iff Some g)
  show ?thesis
    by (simp add: identify_crud_operations_def ends_with_segment_iff Some g two Let_def)
qed

text \<open>
  C6 (as the code has it). The classification is a function of the path string alone: the
  analysis of an endpoint carries it whatever the probes of the methods returned. A
  path that has no \<open>/\<close> or ends with \<open>/\<close> gets all four flags false. Otherwise a path
  whose lower-case form contains \<open>auth\<close> or \<open>login\<close> is create-only; else one that contains
  \<open>search\<close> or \<open>find\<close> is read-only; else read is true, and update and delete are true and
  create is false exactly when the path ends with two non-empty segments \<open>/a/b\<close> (any
  non-empty last segment after a non-empty one counts as an identifier).
\<close>

theorem crud_classification_by_path_shape:
  "identify_crud_operations endpoint =
     (if \<not> ends_with_segment endpoint
        then \<lparr>create = False, read = False, update = False, delete = False\<rparr>
      else if py_contains ''auth'' (py_lower endpoint) \<or> py_contains ''login'' (py_lower endpoint)
        then \<lparr>create = True, read = False, update = False, delete = False\<rparr>
      else if py_contains ''search'' (py_lower endpoint) \<or> py_contains ''find'' (py_lower endpoint)
        then \<lparr>create = False, read = True, update = False, delete = False\<rparr>
      else \<lparr>create = \<not> ends_with_two_segments endpoint, read = True,
            update = ends_with_two_segments endpoint, delete = ends_with_two_segments endpoint\<rparr>)
   \<and> ea_crud_operations (fst (analyze_endpoint lib gen net n endpoint)) =
       identify_crud_operations endpoint"
  using identify_crud_operations_shape analyze_endpoint_crud by (rule conjI)

lemma crud_example_facts:
  "ends_with_segment ''/users''" "\<not> ends_with_two_segments ''/users''"
  "ends_with_segment ''/users/42''" "ends_with_two_segments ''/users/42''"
  "ends_with_segment ''/auth/login''"
  "\<not> py_contains ''auth'' (py_lower ''/users'')" "\<not> py_contains ''login'' (py_lower ''/users'')"
  "\<not> py_contains ''search'' (py_lower ''/users'')" "\<not> py_contains ''find'' (py_lower ''/users'')"
  "\<not> py_contains ''auth'' (py_lower ''/users/42'')" "\<not> py_contains ''login'' (py_lower ''/users/42'')"
  "\<not> py_contains ''search'' (py_lower ''/users/42'')" "\<not> py_contains ''find'' (py_lower ''/users/42'')"
  "py_contains ''auth'' (py_lower ''/auth/login'')"
  by code_simp+

theorem crud_classification_by_path_shape_witness:
  "identify_crud_operations ''/users'' = \<lparr>create = True, read = True, update = False, delete = False\<rparr>
   \<and> identify_crud_operations ''/users/42'' =
       \<lparr>create = False, read = True, update = True, delete = True\<rparr>
   \<and> identify_crud_operations ''/auth/login'' =
       \<lparr>create = True, read = False, update = False, delete = False\<rparr>"
  using crud_classification_by_path_shape [of "''/users''" no_lib only_users "always 200" 0]
    crud_classification_by_path_shape [of "''/users/42''" no_lib only_users "always 200" 0]
    crud_classification_by_path_shape [of "''/auth/login''" no_lib only_users "always 200" 0]
  by (simp only: crud_example_facts simp_thms if_True if_False)

text \<open>
  C6 as stated fails on a path that ends with \<open>/\<close>: read is false for \<open>/users/\<close>, and
  \<open>/auth/\<close>, which contains \<open>auth\<close>, is not create-capable.
\<close>

theorem read_always_true_counterexample:
  "\<not> read (identify_crud_operations ''/users/'')
   \<and> py_contains ''auth'' (py_lower ''/auth/'')
   \<and> \<not> create (identify_crud_operations ''/auth/'')"
  by code_simp

section \<open>Properties of schema inference\<close>

lemma infer_object_schema_dict:
  "infer_object_schema_comprehensive (JObject d) = Inr (shallow_object_schema d)"
  by (simp add: infer_object_schema_comprehensive_def shallow_object_schema_def)

lemma analyze_response_schema_cases:
  "analyze_response_schema_comprehensive r =
     (case safe_json r of
        JObject d \<Rightarrow> shallow_object_schema d
      | JArray [] \<Rightarrow> JObject [(''type'', JString ''list'')]
      | JArray (JObject d # others) \<Rightarrow>
          JObject [(''type'', JString ''array''), (''items'', shallow_object_schema d),
                   (''count'', JInt (1 + int (length others)))]
      | JArray (first # others) \<Rightarrow> JObject [(''type'', JString ''unknown'')]
      | scalar \<Rightarrow> JObject [(''type'', JString (py_type_name scalar))])"
proof (cases "safe_json r")
  case (JArray xs)
  show ?thesis
  proof (cases xs)
    case Nil
    with JArray show ?thesis
      by (simp add: analyze_response_schema_comprehensive_def py_type_name_def)
  next
    case (Cons first others)
    with JArray show ?thesis
      by (cases first)
         (simp_all add: analyze_response_schema_comprehensive_def infer_object_schema_dict
            infer_object_schema_comprehensive_def shallow_object_schema_def)
  qed
qed (simp_all add: analyze_response_schema_comprehensive_def infer_object_schema_dict py_type_name_def)

text \<open>
  C3 (as the code has it). Schema inference is one level deep. A JSON object maps to an
  object schema whose properties tag every field with the kind of its value (a nested object
  is \<open>object\<close>, a nested array is \<open>array\<close>, with no schema below); a non-empty array whose
  first element is an object maps to an array schema whose items are that object's schema; a
  non-empty array whose first element is not an object maps to \<open>{type: unknown}\<close>; an empty
  array maps to \<open>{type: list}\<close>; any other body maps to the Python type name of the value.
\<close>

theorem schema_inference_one_level:
  "analyze_response_schema_comprehensive r =
     (case safe_json r of
        JObject d \<Rightarrow> shallow_object_schema d
      | JArray [] \<Rightarrow> JObject [(''type'', JString ''list'')]
      | JArray (JObject d # others) \<Rightarrow>
          JObject [(''type'', JString ''array''), (''items'', shallow_object_schema d),
                   (''count'', JInt (1 + int (length others)))]
      | JArray (first # others) \<Rightarrow> JObject [(''type'', JString ''unknown'')]
      | scalar \<Rightarrow> JObject [(''type'', JString (py_type_name scalar))])"
  by (rule analyze_response_schema_cases)

lemmas schema_eval = analyze_response_schema_comprehensive_def infer_object_schema_comprehensive_def
  safe_json_def json_response_def text_response_def py_type_name_def

theorem schema_inference_one_level_witness:
  "analyze_response_schema_comprehensive (json_response (JArray [JObject [(''id'', JInt 7)], JObject []])) =
     JObject [(''type'', JString ''array''),
              (''items'', shallow_object_schema [(''id'', JInt 7)]),
              (''count'', JInt 2)]"
  using schema_inference_one_level [of "json_response (JArray [JObject [(''id'', JInt 7)], JObject []])"]
  by (simp add: safe_json_def json_response_def)

text \<open>
  C3 as stated fails: the field \<open>a\<close> of \<open>{"a": {"b": 1}}\<close> gets no properties, the array
  \<open>[1, 2]\<close> gets \<open>{type: unknown}\<close> and the empty array gets \<open>{type: list}\<close>.
\<close>

theorem recursive_schema_counterexample:
  "analyze_response_schema_comprehensive (json_response (JObject [(''a'', JObject [(''b'', JInt 1)])])) =
     JObject
       [(''type'', JString ''object''),
        (''properties'',
           JObject [(''a'', JObject [(''type'', JString ''object''),
                                     (''example'', JObject [(''b'', JInt 1)])])]),
        (''required'', JArray []),
        (''example'', JObject [(''a'', JObject [(''b'', JInt 1)])])]
   \<and> analyze_response_schema_comprehensive (json_response (JArray [JInt 1, JInt 2])) =
       JObject [(''type'', JString ''unknown'')]
   \<and> analyze_response_schema_comprehensive (json_response (JArray [])) =
       JObject [(''type'', JString ''list'')]"
  by (simp add: schema_eval infer_type_comprehensive_def)

text \<open>
  C8 (as the code has it). For a response whose body does not parse as JSON, schema inference
  returns exactly \<open>{type: str}\<close>; it raises nothing (the function is total).
\<close>

theorem non_json_body_schema:
  "json_result r = None \<Longrightarrow>
     analyze_response_schema_comprehensive r = JObject [(''type'', JString ''str'')]"
  by (simp add: analyze_response_schema_comprehensive_def safe_json_def py_type_name_def)

theorem non_json_body_schema_witness:
  "json_result (text_response ''<html>'') = None
   \<and> analyze_response_schema_comprehensive (text_response ''<html>'') =
       JObject [(''type'', JString ''str'')]"
proof -
  have h: "json_result (text_response ''<html>'') = None"
    by (simp add: text_response_def)
  from h non_json_body_schema [OF h] show ?thesis by simp
qed

text \<open>
  C8 as stated fails: the schema of a body that is not JSON is not \<open>{type: unknown}\<close>.
\<close>

theorem non_json_body_unknown_counterexample:
  "json_result (text_response ''<html>'') = None
   \<and> analyze_response_schema_comprehensive (text_response ''<html>'') \<noteq>
       JObject [(''type'', JString ''unknown'')]"
  by (simp add: schema_eval)

section \<open>Properties of the emitter's response schemas\<close>

lemma create_response_schema_falsy:
  "\<not> py_truthy rs \<Longrightarrow> create_response_schema rs = Inr default_object_schema"
  by (subst create_response_schema.simps) simp

lemma create_response_schema_other:
  assumes "map_of d ''type'' \<noteq> Some (JString ''array'')"
    and "map_of d ''type'' \<noteq> Some (JString ''object'')"
  shows "create_response_schema (JObject d) = Inr default_object_schema"
  using assms by (subst create_response_schema.simps) simp

lemma create_response_schema_array:
  assumes "map_of d ''type'' = Some (JString ''array'')"
  shows "create_response_schema (JObject d) =
     (case create_response_schema (dict_get d ''items'' (JObject [])) of
        Inl e \<Rightarrow> Inl e
      | Inr items_schema \<Rightarrow> Inr (JObject [(''type'', JString ''array''), (''items'', items_schema)]))"
proof -
  from assms have "d \<noteq> []" by auto
  then show ?thesis
    using assms
    by (subst create_response_schema.simps) (simp add: py_truthy_def dict_get_def split: option.splits)
qed

lemma create_response_schema_object:
  assumes "map_of d ''type'' = Some (JString ''object'')"
  shows "create_response_schema (JObject d) =
     (case dict_get d ''properties'' (JObject []) of
        JObject props \<Rightarrow>
          (case convert_properties props of
             Inl e \<Rightarrow> Inl e
           | Inr properties \<Rightarrow>
               Inr (JObject [(''type'', JString ''object''), (''properties'', JObject properties)]))
      | _ \<Rightarrow> Inl AttributeError)"
proof -
  from assms have "d \<noteq> []" by auto
  then show ?thesis
    using assms
    by (subst create_response_schema.simps) (simp add: py_truthy_def)
qed

lemma create_response_schema_type:
  assumes "create_response_schema rs = Inr s"
  shows "schema_type s = Some (JString ''object'') \<or> schema_type s = Some (JString ''array'')"
proof (cases "py_truthy rs")
  case False
  with assms show ?thesis
    by (auto simp add: create_response_schema_falsy default_object_schema_def schema_type_def)
next
  case True
  show ?thesis
  proof (cases rs)
    case (JObject d)
    consider (a) "map_of d ''type'' = Some (JString ''array'')"
      | (b) "map_of d ''type'' = Some (JString ''object'')"
      | (c) "map_of d ''type'' \<noteq> Some (JString ''array'')" "map_of d ''type'' \<noteq> Some (JString ''object'')"
      by blast
    then show ?thesis
    proof cases
      case a
      with assms JObject show ?thesis
        by (auto simp add: create_response_schema_array schema_type_def split: sum.splits)
    next
      case b
      with assms JObject show ?thesis
        by (auto simp add: create_response_schema_object schema_type_def split: sum.splits json.splits)
    next
      case c
      with assms JObject show ?thesis
        by (auto simp add: create_response_schema_other default_object_schema_def schema_type_def)
    qed
  qed (use assms True in \<open>simp_all add: create_response_schema.simps\<close>)
qed

lemma convert_properties_shallow:
  "\<exists>ps. convert_properties (map (\<lambda>(key, v).
        (key, JObject [(''type'', JString (infer_type_comprehensive v)), (''example'', v)])) d) = Inr ps"
proof (induction d)
  case Nil
  show ?case by simp
next
  case (Cons kv d)
  obtain k v where kv: "kv = (k, v)" by (cases kv)
  from Cons obtain ps where ps: "convert_properties (map (\<lambda>(key, v).
        (key, JObject [(''type'', JString (infer_type_comprehensive v)), (''example'', v)])) d) = Inr ps"
    by blast
  have "\<exists>p. convert_property k (JObject [(''type'', JString (infer_type_comprehensive v)), (''example'', v)]) = Inr p"
    by (simp add: convert_property_def convert_parameter_type_def dict_get_def Let_def)
  then obtain p where "convert_property k (JObject [(''type'', JString (infer_type_comprehensive v)), (''example'', v)]) = Inr p"
    by blast
  with ps kv show ?case by simp
qed

lemma create_response_schema_shallow:
  "\<exists>s. create_response_schema (shallow_object_schema d) = Inr s"
proof -
  obtain ps where "convert_properties (map (\<lambda>(key, v).
        (key, JObject [(''type'', JString (infer_type_comprehensive v)), (''example'', v)])) d) = Inr ps"
    using convert_properties_shallow by blast
  then show ?thesis
    unfolding shallow_object_schema_def
    by (subst create_response_schema_object) (simp_all add: dict_get_def)
qed

lemma create_response_schema_engine:
  "\<exists>s. create_response_schema (analyze_response_schema_comprehensive r) = Inr s"
proof -
  have one: "\<exists>s. create_response_schema (JObject [(''type'', JString t)]) = Inr s" for t
  proof (cases "t = ''array''")
    case True
    then show ?thesis
      by (simp add: create_response_schema_array dict_get_def create_response_schema_falsy py_truthy_def)
  next
    case False
    note not_array = this
    show ?thesis
    proof (cases "t = ''object''")
      case True
      then show ?thesis
        by (simp add: create_response_schema_object dict_get_def)
    next
      case False
      with not_array show ?thesis
        by (simp add: create_response_schema_other)
    qed
  qed
  have arr: "\<exists>s. create_response_schema
      (JObject [(''type'', JString ''array''), (''items'', shallow_object_schema d), (''count'', c)]) = Inr s" for d c
  proof -
    obtain s where "create_response_schema (shallow_object_schema d) = Inr s"
      using create_response_schema_shallow by blast
    then show ?thesis
      by (simp add: create_response_schema_array dict_get_def)
  qed
  show ?thesis
    unfolding analyze_response_schema_cases
    by (auto split: json.splits list.splits intro: one arr create_response_schema_shallow)
qed

lemma convert_property_returns:
  "(\<exists>p. convert_property prop_name prop_info = Inr p) \<longleftrightarrow> convertible_property prop_info"
  by (auto simp add: convert_property_def convertible_property_def convert_parameter_type_def
        dict_get_def Let_def split: json.splits option.splits sum.splits)

lemma convert_properties_returns:
  "(\<exists>ps. convert_properties props = Inr ps) \<longleftrightarrow>
     list_all (\<lambda>(prop_name, prop_info). convertible_property prop_info) props"
proof (induction props)
  case Nil
  show ?case by simp
next
  case (Cons entry props)
  obtain k p where entry: "entry = (k, p)" by (cases entry)
  show ?case
    using Cons.IH convert_property_returns [of k p]
    by (auto simp add: entry split: sum.splits)
qed

lemma wrapped_returns:
  "(\<exists>s. (case r of Inl e \<Rightarrow> Inl e | Inr x \<Rightarrow> Inr (f x)) = Inr s) \<longleftrightarrow> (\<exists>x. r = Inr x)"
  by (cases r) auto

lemma create_response_schema_returns:
  "(\<exists>s. create_response_schema rs = Inr s) \<longleftrightarrow> convertible rs"
proof (induction rs rule: convertible.induct)
  case (1 rs)
  show ?case
  proof (cases "py_truthy rs")
    case False
    then show ?thesis
      by (simp add: create_response_schema_falsy convertible.simps [of rs])
  next
    case True
    show ?thesis
    proof (cases rs)
      case (JObject d)
      consider (a) "map_of d ''type'' = Some (JString ''array'')"
        | (b) "map_of d ''type'' = Some (JString ''object'')"
        | (c) "map_of d ''type'' \<noteq> Some (JString ''array'')" "map_of d ''type'' \<noteq> Some (JString ''object'')"
        by blast
      then show ?thesis
      proof cases
        case a
        show ?thesis
        proof (cases "map_of d ''items''")
          case None
          with a True JObject show ?thesis
            by (simp add: create_response_schema_array dict_get_def create_response_schema_falsy
                  py_truthy_def convertible.simps [of "JObject d"])
        next
          case (Some items)
          from "1.IH" [OF _ JObject a Some] True
          have ih: "(\<exists>s. create_response_schema items = Inr s) \<longleftrightarrow> convertible items" by simp
          from a True JObject Some have c: "convertible rs = convertible items"
            by (simp add: convertible.simps [of "JObject d"])
          from a Some have "(\<exists>s. create_response_schema (JObject d) = Inr s) \<longleftrightarrow>
              (\<exists>s. create_response_schema items = Inr s)"
            by (auto simp add: create_response_schema_array dict_get_def split: sum.splits)
          with ih c JObject show ?thesis by simp
        qed
      next
        case b
        from b True JObject have c: "convertible (JObject d) =
            (case map_of d ''properties'' of None \<Rightarrow> True
             | Some (JObject props) \<Rightarrow> list_all (\<lambda>(prop_name, prop_info). convertible_property prop_info) props
             | Some other \<Rightarrow> False)"
          by (simp add: convertible.simps [of "JObject d"])
        show ?thesis
          unfolding JObject c create_response_schema_object [OF b]
          by (simp add: dict_get_def wrapped_returns convert_properties_returns
                split: option.splits json.splits)
      next
        case c
        with True JObject show ?thesis
          by (simp add: create_response_schema_other convertible.simps [of "JObject d"])
      qed
    qed (use True in \<open>simp_all add: create_response_schema.simps convertible.simps\<close>)
  qed
qed

lemma create_response_schema_not_mapping:
  assumes "py_truthy rs" and "\<forall>d. rs \<noteq> JObject d"
  shows "create_response_schema rs = Inl AttributeError"
proof (cases rs)
  case (JObject d)
  with assms(2) show ?thesis by blast
qed (use assms(1) in \<open>simp_all add: create_response_schema.simps\<close>)

text \<open>
  C10 (as the code has it). The conversion yields \<open>{type: object, properties: {}}\<close> for every
  false value (the empty mapping, \<open>None\<close>, an empty string or list, zero) and for a mapping
  whose type tag is neither \<open>array\<close> nor \<open>object\<close> (a scalar tag, an unrecognized tag, no
  tag); an array schema whose items are absent or a false value yields
  \<open>{type: array, items: {type: object, properties: {}}}\<close>. It succeeds on every schema that
  the engine's inference produces, and whenever it succeeds the top-level type of the result
  is \<open>object\<close> or \<open>array\<close>. It is not total. It returns exactly on the convertible inputs: a
  false value; a mapping tagged \<open>array\<close> whose items are absent or convertible; a mapping
  tagged \<open>object\<close> whose properties are absent or a mapping of mappings, none with a list or
  a mapping as type; a mapping with another tag or none. On every other input it raises; a
  true value that is not a mapping raises \<open>AttributeError\<close>.
\<close>

theorem response_schema_conversion:
  "create_response_schema (JObject []) = Inr default_object_schema
   \<and> (map_of d ''type'' \<noteq> Some (JString ''array'') \<longrightarrow>
      map_of d ''type'' \<noteq> Some (JString ''object'') \<longrightarrow>
        create_response_schema (JObject d) = Inr default_object_schema)
   \<and> (map_of d ''type'' = Some (JString ''array'') \<longrightarrow> map_of d ''items'' = None \<longrightarrow>
        create_response_schema (JObject d) =
          Inr (JObject [(''type'', JString ''array''), (''items'', default_object_schema)]))
   \<and> (\<exists>s. create_response_schema (analyze_response_schema_comprehensive r) = Inr s)
   \<and> (create_response_schema rs = Inr s \<longrightarrow>
        schema_type s = Some (JString ''object'') \<or> schema_type s = Some (JString ''array''))
   \<and> (\<not> py_truthy v \<longrightarrow> create_response_schema v = Inr default_object_schema)
   \<and> (map_of d ''type'' = Some (JString ''array'') \<longrightarrow> map_of d ''items'' = Some items \<longrightarrow>
      \<not> py_truthy items \<longrightarrow>
        create_response_schema (JObject d) =
          Inr (JObject [(''type'', JString ''array''), (''items'', default_object_schema)]))
   \<and> ((\<exists>x. create_response_schema v = Inr x) = convertible v)
   \<and> (\<not> convertible v \<longrightarrow> (\<exists>e. create_response_schema v = Inl e))
   \<and> (py_truthy v \<longrightarrow> (\<forall>m. v \<noteq> JObject m) \<longrightarrow> create_response_schema v = Inl AttributeError)"
proof (intro conjI impI)
  show "create_response_schema (JObject []) = Inr default_object_schema"
    by (simp add: create_response_schema_falsy py_truthy_def)
next
  assume "map_of d ''type'' \<noteq> Some (JString ''array'')"
    and "map_of d ''type'' \<noteq> Some (JString ''object'')"
  then show "create_response_schema (JObject d) = Inr default_object_schema"
    by (rule create_response_schema_other)
next
  assume "map_of d ''type'' = Some (JString ''array'')" and "map_of d ''items'' = None"
  then show "create_response_schema (JObject d) =
      Inr (JObject [(''type'', JString ''array''), (''items'', default_object_schema)])"
    by (simp add: create_response_schema_array dict_get_def create_response_schema_falsy py_truthy_def)
next
  show "\<exists>s. create_response_schema (analyze_response_schema_comprehensive r) = Inr s"
    by (rule create_response_schema_engine)
next
  assume "create_response_schema rs = Inr s"
  then show "schema_type s = Some (JString ''object'') \<or> schema_type s = Some (JString ''array'')"
    by (rule create_response_schema_type)
next
  assume "\<not> py_truthy v"
  then show "create_response_schema v = Inr default_object_schema"
    by (rule create_response_schema_falsy)
next
  assume "map_of d ''type'' = Some (JString ''array'')" and "map_of d ''items'' = Some items"
    and "\<not> py_truthy items"
  then show "create_response_schema (JObject d) =
      Inr (JObject [(''type'', JString ''array''), (''items'', default_object_schema)])"
    by (simp add: create_response_schema_array dict_get_def create_response_schema_falsy)
next
  show "(\<exists>x. create_response_schema v = Inr x) = convertible v"
    by (rule create_response_schema_returns)
next
  assume "\<not> convertible v"
  then have "\<not> (\<exists>x. create_response_schema v = Inr x)"
    by (simp add: create_response_schema_returns)
  then show "\<exists>e. create_response_schema v = Inl e"
    by (cases "create_response_schema v") auto
next
  assume "py_truthy v" and "\<forall>m. v \<noteq> JObject m"
  then show "create_response_schema v = Inl AttributeError"
    by (rule create_response_schema_not_mapping)
qed

lemma convertible_examples:
  "\<not> convertible (JString ''x'')"
  "\<not> convertible (JObject [(''type'', JString ''object''), (''properties'', JArray [])])"
  "convertible (JObject [(''type'', JString ''array''), (''items'', JNull)])"
  by code_simp+

theorem response_schema_conversion_witness:
  "create_response_schema (JObject [(''type'', JString ''int'')]) = Inr default_object_schema
   \<and> create_response_schema (JObject [(''type'', JString ''array''), (''count'', JInt 0)]) =
       Inr (JObject [(''type'', JString ''array''), (''items'', default_object_schema)])
   \<and> create_response_schema (JObject [(''type'', JString ''array''), (''items'', JNull)]) =
       Inr (JObject [(''type'', JString ''array''), (''items'', default_object_schema)])
   \<and> schema_type default_object_schema = Some (JString ''object'')
   \<and> create_response_schema (JString ''x'') = Inl AttributeError
   \<and> create_response_schema JNull = Inr default_object_schema
   \<and> (\<exists>e. create_response_schema
             (JObject [(''type'', JString ''object''), (''properties'', JArray [])]) = Inl e)"
  using response_schema_conversion [where d = "[(''type'', JString ''int'')]"
      and r = "text_response ''<html>''" and rs = "JObject []" and s = default_object_schema
      and v = "JString ''x''" and items = JNull]
    response_schema_conversion [where d = "[(''type'', JString ''array''), (''count'', JInt 0)]"
      and r = "text_response ''<html>''" and rs = "JObject []" and s = default_object_schema
      and v = JNull and items = JNull]
    response_schema_conversion [where d = "[(''type'', JString ''array''), (''items'', JNull)]"
      and r = "text_response ''<html>''" and rs = "JObject []" and s = default_object_schema
      and v = "JObject [(''type'', JString ''object''), (''properties'', JArray [])]" and items = JNull]
  by (simp add: schema_type_def default_object_schema_def py_truthy_def convertible_examples)

text \<open>
  C10 as stated fails: an array schema without items does not degrade to
  \<open>{type: object, properties: {}}\<close>, and the conversion is not total: an array schema whose
  items are a string raises.
\<close>

theorem response_schema_total_counterexample:
  "create_response_schema (JObject [(''type'', JString ''array'')]) =
     Inr (JObject [(''type'', JString ''array''), (''items'', default_object_schema)])
   \<and> create_response_schema (JObject [(''type'', JString ''array'')]) \<noteq> Inr default_object_schema
   \<and> create_response_schema (JObject [(''type'', JString ''array''), (''items'', JString ''x'')]) =
       Inl AttributeError"
  by (simp add: create_response_schema.simps [of "JObject (x # xs)" for x xs]
        create_response_schema.simps [of "JObject []"] create_response_schema.simps [of "JString s" for s]
        py_truthy_def default_object_schema_def)

section \<open>Properties of discovery and of the summary\<close>

lemma discover_endpoints_catalog_distinct:
  "\<not> custom_mode gen \<Longrightarrow> distinct (fst (discover_endpoints lib gen net n))"
  by (auto simp add: custom_mode_def discover_endpoints_def split: option.splits list.splits prod.splits)

lemma discovery_rate_any_mode:
  "endpoint_patterns gen \<noteq> [] \<Longrightarrow>
     discovery_rate (generate_comprehensive_summary gen endpoints analyses) =
       of_nat (length endpoints) / of_nat (length (endpoint_patterns gen)) * 100"
  by (simp add: generate_comprehensive_summary_def Let_def)

text \<open>
  C2. In catalog mode the result of discovery has no duplicates (the lemma above). In
  explicit-list mode the confirmed paths are returned as they were appended: for the list
  \<open>/users\<close>, \<open>users\<close> against a service that answers 200, the result holds \<open>/users\<close> twice.
\<close>

theorem custom_list_duplicates_returned:
  "custom_mode twice_users
   \<and> discover_endpoints no_lib twice_users (always 200) 0 = ([''/users'', ''/users''], 2)
   \<and> \<not> distinct (fst (discover_endpoints no_lib twice_users (always 200) 0))"
  by code_simp

text \<open>
  C7. The discovery rate of the summary is the number of endpoints over the number of
  cataloged patterns in both modes (the lemma above). In explicit-list mode, for the list
  \<open>/users\<close> against a service that answers 200, the document reports 0 patterns tested and a
  discovery rate of 100/87 percent (rendered \<open>1.1%\<close>), not zero.
\<close>

theorem custom_list_discovery_rate:
  "custom_mode only_users
   \<and> (case fst (generate_analysis no_lib only_users (always 200) 0) of
        NoEndpoints b \<Rightarrow> False
      | Analysis doc \<Rightarrow>
          total_patterns_tested (ar_metadata doc) = 0
          \<and> total_endpoints (ar_summary doc) = 1
          \<and> discovery_rate (ar_summary doc) = 100 / 87)"
  by code_simp

section \<open>From the profiler to the emitted parameters\<close>

lemma map_of_dict_set: "map_of (dict_set d k v) k' = (if k' = k then Some v else map_of d k')"
  by (induction d k v rule: dict_set.induct) auto

lemma set_dict_set_subset: "set (dict_set d k v) \<subseteq> insert (k, v) (set d)"
  by (induction d k v rule: dict_set.induct) auto

lemma keys_dict_set: "fst ` set (dict_set d k v) = insert k (fst ` set d)"
  by (induction d k v rule: dict_set.induct) auto

lemma distinct_dict_set: "distinct (map fst d) \<Longrightarrow> distinct (map fst (dict_set d k v))"
proof (induction d k v rule: dict_set.induct)
  case (1 k v)
  show ?case by simp
next
  case (2 k' v' rest k v)
  show ?case
  proof (cases "k' = k")
    case True
    with "2.prems" show ?thesis by simp
  next
    case False
    from "2.prems" have d: "distinct (map fst rest)" and n: "k' \<notin> fst ` set rest" by simp_all
    from n False have "k' \<notin> fst ` set (dict_set rest k v)"
      by (simp add: keys_dict_set)
    with False "2.IH" [OF False d] show ?thesis by simp
  qed
qed

lemma set_dict_set_distinct:
  "distinct (map fst d) \<Longrightarrow> (k', v') \<in> set (dict_set d k v) \<Longrightarrow>
     (k' = k \<and> v' = v) \<or> (k' \<noteq> k \<and> (k', v') \<in> set d)"
proof (induction d k v rule: dict_set.induct)
  case (1 k v)
  then show ?case by simp
next
  case (2 k0 v0 rest k v)
  show ?case
  proof (cases "k0 = k")
    case True
    from "2.prems"(1) True have "k \<notin> fst ` set rest" by simp
    then have "\<And>x. (k, x) \<notin> set rest" by force
    with "2.prems" True show ?thesis by auto
  next
    case False
    with "2.prems" "2.IH" show ?thesis by auto
  qed
qed

lemma consistent_profiles_Nil: "consistent_profiles [] []"
  by (simp add: consistent_profiles_def)

lemma consistent_profiles_step:
  assumes c: "consistent_profiles P V"
    and r: "analyze_parameter_comprehensive lib net n u m nm pinfo = ((prof, vi), n')"
  shows "consistent_profiles (dict_set P nm prof) (dict_set V nm vi)"
proof -
  have acc: "pi_accepted prof = (accepted_values vi \<noteq> [])"
    using analyze_parameter_result(7) [of lib net n u m nm pinfo] r by simp
  have req: "pi_required prof = (rejected_values vi \<noteq> [] \<and> accepted_values vi = [])"
    using analyze_parameter_result(4,6) [of lib net n u m nm pinfo] r by simp
  from c have d: "distinct (map fst P)"
    and old: "\<And>k p. (k, p) \<in> set P \<Longrightarrow> pi_accepted p \<or> accepted_in V k \<noteq> [] \<Longrightarrow> \<not> pi_required p"
    by (auto simp add: consistent_profiles_def)
  have "\<not> pi_required p"
    if mem: "(k, p) \<in> set (dict_set P nm prof)"
      and a: "pi_accepted p \<or> accepted_in (dict_set V nm vi) k \<noteq> []" for k p
  proof -
    from set_dict_set_distinct [OF d mem]
    consider (new) "k = nm" "p = prof" | (kept) "k \<noteq> nm" "(k, p) \<in> set P" by blast
    then show ?thesis
    proof cases
      case new
      with a have "accepted_values vi \<noteq> []"
        by (auto simp add: acc accepted_in_def map_of_dict_set)
      with new show ?thesis by (simp add: req)
    next
      case kept
      with a have "pi_accepted p \<or> accepted_in V k \<noteq> []"
        by (simp add: accepted_in_def map_of_dict_set)
      with kept(2) show ?thesis by (rule old)
    qed
  qed
  with distinct_dict_set [OF d] show ?thesis
    by (auto simp add: consistent_profiles_def)
qed

lemma analyze_parameters_consistent:
  "consistent_profiles P V \<Longrightarrow>
     analyze_parameters lib net u m catalog ((P, V), n) = ((P', V'), n') \<Longrightarrow>
       consistent_profiles P' V'"
proof (induction catalog arbitrary: P V n)
  case Nil
  then show ?case by simp
next
  case (Cons entry catalog)
  obtain nm pinfo where entry: "entry = (nm, pinfo)" by (cases entry)
  obtain prof vi n1 where r: "analyze_parameter_comprehensive lib net n u m nm pinfo = ((prof, vi), n1)"
    by (metis prod.exhaust)
  from Cons.prems(2) have rest: "analyze_parameters lib net u m catalog
      ((dict_set P nm prof, dict_set V nm vi), n1) = ((P', V'), n')"
    by (simp add: entry r)
  from consistent_profiles_step [OF Cons.prems(1) r] rest show ?case
    by (rule Cons.IH)
qed

lemma analyze_method_well_formed:
  assumes "analyze_method_comprehensive lib gen net n endpoint m = (ma, n')"
  shows "consistent_profiles (ma_parameters ma) (ma_parameter_validation ma)"
    and "\<exists>converted. create_response_schema (ma_response_schema ma) = Inr converted"
proof -
  let ?u = "base_url gen @ endpoint"
  obtain P V n2 where ap: "analyze_parameters lib net ?u m (parameter_variations gen) (([], []), Suc n) =
      ((P, V), n2)"
    by (metis prod.exhaust)
  have c: "consistent_profiles P V"
    using consistent_profiles_Nil ap by (rule analyze_parameters_consistent)
  from assms ap have P: "ma_parameters ma = P" and V: "ma_parameter_validation ma = V"
    by (auto simp add: analyze_method_comprehensive_def session_request_def Let_def
          split: prod.splits if_splits)
  from c P V show "consistent_profiles (ma_parameters ma) (ma_parameter_validation ma)"
    by simp
  have empty: "\<exists>converted. create_response_schema (JObject []) = Inr converted"
    by (simp add: create_response_schema_falsy py_truthy_def)
  from assms ap have "ma_response_schema ma = JObject [] \<or>
      (\<exists>r. ma_response_schema ma = analyze_response_schema_comprehensive r)"
    by (auto simp add: analyze_method_comprehensive_def session_request_def session_get_def Let_def
          split: prod.splits if_splits outcome.splits)
  with empty create_response_schema_engine
  show "\<exists>converted. create_response_schema (ma_response_schema ma) = Inr converted"
    by auto
qed

lemma analyze_methods_well_profiled:
  "well_profiled a \<Longrightarrow> analyze_methods lib gen net endpoint ms (a, n) = (a', n') \<Longrightarrow>
     well_profiled a'"
proof (induction ms arbitrary: a n)
  case Nil
  then show ?case by simp
next
  case (Cons m ms)
  obtain ma n1 where ma: "analyze_method_comprehensive lib gen net n endpoint m = (ma, n1)"
    by (cases "analyze_method_comprehensive lib gen net n endpoint m")
  let ?a1 = "a\<lparr>ea_parameters := dict_set (ea_parameters a) m (ma_parameters ma),
                ea_response_schema := dict_set (ea_response_schema a) m (ma_response_schema ma),
                ea_error_responses := dict_set (ea_error_responses a) m (ma_error_responses ma),
                ea_parameter_validation :=
                  dict_set (ea_parameter_validation a) m (ma_parameter_validation ma)\<rparr>"
  from Cons.prems(2) ma have rest: "analyze_methods lib gen net endpoint ms (?a1, n1) = (a', n')"
    by simp
  have "well_profiled ?a1"
    using Cons.prems(1) analyze_method_well_formed [OF ma]
    by (auto simp add: well_profiled_def map_of_dict_set)
  from this rest show ?case by (rule Cons.IH)
qed

lemma analyze_endpoint_well_profiled:
  assumes "analyze_endpoint lib gen net n endpoint = (a, n')"
  shows "well_profiled a"
proof -
  obtain methods n1 where dm: "discover_methods gen net n endpoint = (methods, n1)"
    by (cases "discover_methods gen net n endpoint")
  let ?a0 = "\<lparr>ea_endpoint = endpoint, ea_methods = methods, ea_parameters = [],
      ea_response_schema = [], ea_error_responses = [],
      ea_crud_operations = identify_crud_operations endpoint,
      ea_parameter_validation = [], ea_status = ''success''\<rparr>"
  have "well_profiled ?a0"
    by (simp add: well_profiled_def consistent_profiles_Nil)
  moreover from assms dm have "analyze_methods lib gen net endpoint methods (?a0, n1) = (a, n')"
    by (simp add: analyze_endpoint_def)
  ultimately show ?thesis by (rule analyze_methods_well_profiled)
qed

lemma analyze_endpoints_well_profiled:
  "\<forall>(e, a) \<in> set analyses. well_profiled a \<Longrightarrow>
     analyze_endpoints lib gen net endpoints (analyses, n) = (analyses', n') \<Longrightarrow>
       \<forall>(e, a) \<in> set analyses'. well_profiled a"
proof (induction endpoints arbitrary: analyses n)
  case Nil
  then show ?case by simp
next
  case (Cons endpoint endpoints)
  obtain a n1 where a: "analyze_endpoint lib gen net n endpoint = (a, n1)"
    by (cases "analyze_endpoint lib gen net n endpoint")
  from Cons.prems(2) a have rest:
    "analyze_endpoints lib gen net endpoints (dict_set analyses endpoint a, n1) = (analyses', n')"
    by simp
  have "\<forall>(e, x) \<in> set (dict_set analyses endpoint a). well_profiled x"
    using Cons.prems(1) analyze_endpoint_well_profiled [OF a] set_dict_set_subset [of analyses endpoint a]
    by auto
  from this rest show ?case by (rule Cons.IH)
qed

lemma generate_analysis_well_profiled:
  assumes "generate_analysis lib gen net n = (Analysis doc, n')"
  shows "\<forall>(e, a) \<in> set (ar_endpoints doc). well_profiled a"
proof -
  obtain endpoints n1 where d: "discover_endpoints lib gen net n = (endpoints, n1)"
    by (cases "discover_endpoints lib gen net n")
  obtain analyses n2 where an: "analyze_endpoints lib gen net endpoints ([], n1) = (analyses, n2)"
    by (cases "analyze_endpoints lib gen net endpoints ([], n1)")
  from assms d an have "ar_endpoints doc = analyses"
    by (auto simp add: generate_analysis_def split: if_splits)
  moreover have "\<forall>(e, a) \<in> set analyses. well_profiled a"
    using _ an by (rule analyze_endpoints_well_profiled) simp
  ultimately show ?thesis by simp
qed

lemma create_parameter_objects_required:
  assumes "p \<in> set (create_parameter_objects P V)"
  shows "\<exists>nm prof. (nm, prof) \<in> set P \<and> po_required p = pi_required prof
           \<and> (pi_accepted prof \<or> accepted_in V nm \<noteq> [])"
  using assms
proof (induction P)
  case Nil
  then show ?case by simp
next
  case (Cons entry P)
  obtain nm prof where entry: "entry = (nm, prof)" by (cases entry)
  show ?case
  proof (cases "p \<in> set (create_parameter_objects P V)")
    case True
    with Cons.IH show ?thesis by auto
  next
    case False
    with Cons.prems entry
    have "po_required p = pi_required prof \<and> (pi_accepted prof \<or> accepted_in V nm \<noteq> [])"
      by (auto simp add: Let_def accepted_in_def split: if_splits)
    with entry show ?thesis by auto
  qed
qed

lemma create_parameter_objects_optional:
  assumes "consistent_profiles P V" and "p \<in> set (create_parameter_objects P V)"
  shows "\<not> po_required p"
proof -
  from create_parameter_objects_required [OF assms(2)]
  obtain nm prof where "(nm, prof) \<in> set P" "po_required p = pi_required prof"
    "pi_accepted prof \<or> accepted_in V nm \<noteq> []"
    by blast
  with assms(1) show ?thesis
    by (auto simp add: consistent_profiles_def)
qed

lemma create_operation_optional:
  assumes w: "well_profiled a"
  shows "\<exists>operation. create_operation endpoint m a = Inr operation
           \<and> (\<forall>p \<in> set (case op_parameters operation of Some ps \<Rightarrow> ps | None \<Rightarrow> []). \<not> po_required p)"
proof -
  let ?P = "case map_of (ea_parameters a) m of Some ps \<Rightarrow> ps | None \<Rightarrow> []"
  let ?V = "case map_of (ea_parameter_validation a) m of Some vs \<Rightarrow> vs | None \<Rightarrow> []"
  let ?S = "case map_of (ea_response_schema a) m of Some s \<Rightarrow> s | None \<Rightarrow> JObject []"
  from w have c: "consistent_profiles ?P ?V"
    by (simp add: well_profiled_def)
  have "\<exists>converted. create_response_schema ?S = Inr converted"
  proof (cases "map_of (ea_response_schema a) m")
    case None
    then show ?thesis by (simp add: create_response_schema_falsy py_truthy_def)
  next
    case (Some s)
    with w show ?thesis by (auto simp add: well_profiled_def)
  qed
  then obtain converted where s: "create_response_schema ?S = Inr converted" by blast
  have "\<forall>p \<in> set (create_parameter_objects ?P ?V). \<not> po_required p"
    using c by (auto dest: create_parameter_objects_optional)
  with s show ?thesis
    by (simp add: create_operation_def Let_def)
qed

lemma create_operations_optional:
  "well_profiled a \<Longrightarrow> all_optional path_obj \<Longrightarrow>
     \<exists>path_obj'. create_operations endpoint a ms path_obj = Inr path_obj' \<and> all_optional path_obj'"
proof (induction ms arbitrary: path_obj)
  case Nil
  then show ?case by simp
next
  case (Cons m ms)
  from create_operation_optional [OF Cons.prems(1)]
  obtain operation where op: "create_operation endpoint m a = Inr operation"
    and opt: "\<forall>p \<in> set (case op_parameters operation of Some ps \<Rightarrow> ps | None \<Rightarrow> []). \<not> po_required p"
    by blast
  have "all_optional (dict_set path_obj (py_lower m) operation)"
    using Cons.prems(2) opt set_dict_set_subset [of path_obj "py_lower m" operation]
    unfolding all_optional_def by fastforce
  from Cons.IH [OF Cons.prems(1) this] op show ?case by simp
qed

lemma emitted_parameters_iff:
  "(\<forall>p \<in> set (emitted_parameters spec). \<not> po_required p) \<longleftrightarrow>
     (\<forall>(path, path_obj) \<in> set (sp_paths spec). all_optional path_obj)"
  by (fastforce simp add: emitted_parameters_def all_optional_def)

lemma add_paths_optional:
  "\<forall>(e, a) \<in> set analyses. well_profiled a \<Longrightarrow>
   \<forall>(path, path_obj) \<in> set (sp_paths spec). all_optional path_obj \<Longrightarrow>
     \<exists>spec'. add_paths analyses spec = Inr spec'
        \<and> (\<forall>(path, path_obj) \<in> set (sp_paths spec'). all_optional path_obj)"
proof (induction analyses arbitrary: spec)
  case Nil
  then show ?case by simp
next
  case (Cons entry analyses)
  obtain endpoint a where entry: "entry = (endpoint, a)" by (cases entry)
  from Cons.prems(1) entry have w: "well_profiled a"
    and rest: "\<forall>(e, a) \<in> set analyses. well_profiled a" by simp_all
  show ?case
  proof (cases "ea_status a \<noteq> ''success''")
    case True
    with Cons.IH [OF rest Cons.prems(2)] entry show ?thesis by simp
  next
    case False
    have "all_optional []" by (simp add: all_optional_def)
    from create_operations_optional [OF w this]
    obtain path_obj where po: "create_operations endpoint a (ea_methods a) [] = Inr path_obj"
      and opt: "all_optional path_obj"
      by blast
    let ?spec1 = "spec\<lparr>sp_paths := dict_set (sp_paths spec) endpoint path_obj,
        sp_tags := (if tag_name endpoint \<notin> set (sp_tags spec)
                    then sp_tags spec @ [tag_name endpoint] else sp_tags spec)\<rparr>"
    have "\<forall>(path, path_obj) \<in> set (sp_paths ?spec1). all_optional path_obj"
      using Cons.prems(2) opt set_dict_set_subset [of "sp_paths spec" endpoint path_obj]
      by auto
    from Cons.IH [OF rest this] False po entry show ?thesis by simp
  qed
qed

lemma generate_swagger_spec_optional:
  "\<exists>spec. generate_swagger_spec (fst (generate_analysis lib gen net n)) = Inr spec
     \<and> (\<forall>p \<in> set (emitted_parameters spec). \<not> po_required p)"
proof (cases "fst (generate_analysis lib gen net n)")
  case (NoEndpoints b)
  then show ?thesis
    by (simp add: generate_swagger_spec_def emitted_parameters_def)
next
  case (Analysis doc)
  then have "generate_analysis lib gen net n = (Analysis doc, snd (generate_analysis lib gen net n))"
    by (cases "generate_analysis lib gen net n") simp
  then have w: "\<forall>(e, a) \<in> set (ar_endpoints doc). well_profiled a"
    by (rule generate_analysis_well_profiled)
  let ?spec0 = "\<lparr>sp_title = md_generator (ar_metadata doc) @ '' Documentation'',
      sp_description = ''API documentation generated by '' @ md_generator (ar_metadata doc),
      sp_version = md_version (ar_metadata doc),
      sp_server_url = md_base_url (ar_metadata doc),
      sp_paths = [], sp_tags = []\<rparr>"
  have "\<forall>(path, path_obj) \<in> set (sp_paths ?spec0). all_optional path_obj" by simp
  from add_paths_optional [OF w this] Analysis show ?thesis
    by (simp add: generate_swagger_spec_def emitted_parameters_iff)
qed

text \<open>
  C9. For every service, generator and catalog of parameters, the emitter turns the document
  of the engine into an OpenAPI document (it raises nothing), and no parameter object of
  that document is required. The reasons: the profiler sets \<open>accepted\<close> exactly when
  \<open>accepted_values\<close> is not empty, and then \<open>required\<close> is false; and the emitter takes
  \<open>required\<close> from the profile of a parameter that it emits only when \<open>accepted\<close> is set or
  the accepted values of its validation entry are not empty.
\<close>

theorem emitted_parameters_never_required:
  "(\<exists>spec. generate_swagger_spec (fst (generate_analysis lib gen net n)) = Inr spec
       \<and> (\<forall>p \<in> set (emitted_parameters spec). \<not> po_required p))
   \<and> (let profile = fst (analyze_parameter_comprehensive lib net n u m param_name pinfo)
      in pi_accepted (fst profile) = (accepted_values (snd profile) \<noteq> [])
       \<and> (accepted_values (snd profile) \<noteq> [] \<longrightarrow> \<not> pi_required (fst profile)))
   \<and> (\<forall>p \<in> set (create_parameter_objects method_params parameter_validation).
        \<exists>(name, prof) \<in> set method_params.
          po_required p = pi_required prof
          \<and> (pi_accepted prof \<or> accepted_in parameter_validation name \<noteq> []))"
proof (intro conjI)
  show "\<exists>spec. generate_swagger_spec (fst (generate_analysis lib gen net n)) = Inr spec
       \<and> (\<forall>p \<in> set (emitted_parameters spec). \<not> po_required p)"
    by (rule generate_swagger_spec_optional)
next
  show "let profile = fst (analyze_parameter_comprehensive lib net n u m param_name pinfo)
      in pi_accepted (fst profile) = (accepted_values (snd profile) \<noteq> [])
       \<and> (accepted_values (snd profile) \<noteq> [] \<longrightarrow> \<not> pi_required (fst profile))"
    unfolding Let_def
    using analyze_parameter_result(4,6,7) [of lib net n u m param_name pinfo] by simp
next
  show "\<forall>p \<in> set (create_parameter_objects method_params parameter_validation).
        \<exists>(name, prof) \<in> set method_params.
          po_required p = pi_required prof
          \<and> (pi_accepted prof \<or> accepted_in parameter_validation name \<noteq> [])"
    using create_parameter_objects_required by fastforce
qed

lemma users_with_page_names:
  "map_sum id (\<lambda>spec. map po_name (emitted_parameters spec))
     (generate_swagger_spec (fst (generate_analysis no_lib users_with_page rejects_page_2 0))) =
   Inr [''page'', ''page'']"
  by code_simp

theorem emitted_parameters_never_required_witness:
  "map_sum id (\<lambda>spec. map (\<lambda>p. (po_name p, po_required p)) (emitted_parameters spec))
     (generate_swagger_spec (fst (generate_analysis no_lib users_with_page rejects_page_2 0))) =
   Inr [(''page'', False), (''page'', False)]"
proof -
  from emitted_parameters_never_required
    [of no_lib users_with_page rejects_page_2 0 "[]" "[]" "[]" page_info "[]" "[]"]
  obtain spec where s: "generate_swagger_spec (fst (generate_analysis no_lib users_with_page rejects_page_2 0))
      = Inr spec"
    and opt: "\<forall>p \<in> set (emitted_parameters spec). \<not> po_required p"
    by blast
  from users_with_page_names s have names: "map po_name (emitted_parameters spec) = [''page'', ''page'']"
    by simp
  then obtain p1 p2 where ps: "emitted_parameters spec = [p1, p2]"
    by (auto simp add: map_eq_Cons_conv)
  with names opt have "map (\<lambda>p. (po_name p, po_required p)) (emitted_parameters spec) =
      [(''page'', False), (''page'', False)]"
    by simp
  with s show ?thesis by simp
qed

end
